theory Spec2Isabelle
  imports Complex_Main "HOL-Library.Multiset"
begin

section \<open>Domain types\<close>

text \<open>
  The declarations of \<^verbatim>\<open>types.ts\<close> are read off their uses in \<^verbatim>\<open>App.tsx\<close>, the
  services and the components. A JavaScript number is modelled by a real number (no
  rounding error, no NaN); an optional property is an \<open>option\<close>, \<open>None\<close> standing for
  both an absent property and \<^verbatim>\<open>undefined\<close>; \<^verbatim>\<open>T | null\<close> is an \<open>option\<close> as well.
\<close>

datatype Goal = Lose | Maintain | Gain

record UserProfile =
  name :: string
  age :: real
  sex :: string
  height :: real
  weight :: real
  activityLevel :: real
  goal :: Goal
  targetWeight :: real
  registrationDate :: string

record CalorieGoals =
  bmr :: int
  targetCalories :: int
  targetProtein :: int
  targetCarbs :: int
  targetFat :: int

record Nutrition =
  calories :: real
  protein :: real
  carbs :: real
  fat :: real

record FoodItem =
  food_name :: string
  nutrition :: Nutrition

record Meal =
  meal_id :: string
  meal_name :: string
  meal_timestamp :: string
  foods :: "FoodItem list"
  totalNutrition :: Nutrition
  imageUrl :: "string option"

record DailyLog =
  date :: string
  meals :: "Meal list"
  log_totalNutrition :: Nutrition
  log_weight :: "real option"

text \<open>
  A weight entry stores \<^verbatim>\<open>new Date(dateStr).toISOString()\<close>. That string is the
  canonical rendering of one time value, and the only thing the code ever does with it is
  \<^verbatim>\<open>new Date(entry.date).getTime()\<close>; the entry therefore carries the time value
  (milliseconds since the epoch) itself.
\<close>

record WeightEntry =
  entry_time :: int
  entry_weight :: real

datatype Role = User | Model

record GroundingChunk =
  uri :: string
  chunk_title :: string

text \<open>A message part is \<^verbatim>\<open>{ text }\<close>; \<open>parts\<close> lists the texts.\<close>

record ChatMessage =
  msg_id :: string
  role :: Role
  parts :: "string list"
  msg_timestamp :: string
  grounding :: "GroundingChunk list option"

record ChatSession =
  session_id :: string
  title :: string
  history :: "ChatMessage list"
  createdAt :: string

typedecl WorkoutPlan

text \<open>Values a JavaScript \<^verbatim>\<open>throw\<close> can carry, as far as the handlers tell them apart.\<close>

datatype thrown = Error string | SyntaxError string | RangeError string | NonError


section \<open>Domain calculator: \<^verbatim>\<open>calculateGoals\<close>\<close>

text \<open>\<^verbatim>\<open>Math.round\<close> rounds to the nearest integer, a tie going up.\<close>

definition Math_round :: "real \<Rightarrow> int" where
  "Math_round x = \<lfloor>x + 1 / 2\<rfloor>"

definition calculateGoals :: "UserProfile \<Rightarrow> CalorieGoals" where
  "calculateGoals profile =
    (let heightInCm = height profile * 2.54;
         bmr_v = (if sex profile = ''male''
                  then 10 * weight profile + 6.25 * heightInCm - 5 * age profile + 5
                  else 10 * weight profile + 6.25 * heightInCm - 5 * age profile - 161);
         tdee = bmr_v * activityLevel profile;
         targetCalories_v = (case goal profile of
                               Lose \<Rightarrow> tdee - 500
                             | Gain \<Rightarrow> tdee + 500
                             | Maintain \<Rightarrow> tdee);
         targetCarbs_v = (targetCalories_v * 0.40) / 4;
         targetProtein_v = (targetCalories_v * 0.30) / 4;
         targetFat_v = (targetCalories_v * 0.30) / 9
     in \<lparr> bmr = Math_round bmr_v,
          targetCalories = Math_round targetCalories_v,
          targetProtein = Math_round targetProtein_v,
          targetCarbs = Math_round targetCarbs_v,
          targetFat = Math_round targetFat_v \<rparr>)"

text \<open>
  The Mifflin-St Jeor quantities as the specification words them, for comparison with
  what \<open>calculateGoals\<close> computes.
\<close>

definition spec_bmr :: "UserProfile \<Rightarrow> real" where
  "spec_bmr p = 10 * weight p + 6.25 * (height p * 2.54) - 5 * age p
                 + (if sex p = ''male'' then 5 else - 161)"

definition spec_tdee :: "UserProfile \<Rightarrow> real" where
  "spec_tdee p = spec_bmr p * activityLevel p"

definition spec_targetCalories :: "UserProfile \<Rightarrow> real" where
  "spec_targetCalories p =
     (case goal p of Lose \<Rightarrow> spec_tdee p - 500
                   | Gain \<Rightarrow> spec_tdee p + 500
                   | Maintain \<Rightarrow> spec_tdee p)"


section \<open>Session/state orchestrator: the typed snapshot and its mutations\<close>

text \<open>
  A partial snapshot handed to the persistence gateway (\<^verbatim>\<open>Partial<UserData>\<close>):
  \<open>None\<close> is a field the call does not mention.
\<close>

record PartialUserData =
  p_userProfile :: "UserProfile option option"
  p_dailyLogs :: "DailyLog list option"
  p_workoutPlan :: "WorkoutPlan option option"
  p_weightLog :: "WeightEntry list option"
  p_chatSessions :: "ChatSession list option"
  p_activeChatSessionId :: "string option option"

definition no_fields :: PartialUserData where
  "no_fields = \<lparr> p_userProfile = None, p_dailyLogs = None, p_workoutPlan = None,
                 p_weightLog = None, p_chatSessions = None, p_activeChatSessionId = None \<rparr>"

text \<open>A request handed to the streaming chat fetcher: role and parts of each message.\<close>

type_synonym Content = "Role \<times> string list"

text \<open>
  The state variables of the \<^verbatim>\<open>App\<close> component that the mutation handlers read and
  write. \<open>saves\<close> records, in order, the calls \<^verbatim>\<open>saveUserData(uid, data)\<close> the handlers
  issue; \<open>fetches\<close> records the message lists sent to the model.
\<close>

record AppState =
  firebaseUser :: "string option"
  userProfile :: "UserProfile option"
  dailyLogs :: "DailyLog list"
  workoutPlan :: "WorkoutPlan option"
  weightLog :: "WeightEntry list"
  chatSessions :: "ChatSession list"
  activeChatSessionId :: "string option"
  isAiReplying :: bool
  saves :: "(string \<times> PartialUserData) list"
  fetches :: "Content list list"

definition saveData :: "PartialUserData \<Rightarrow> AppState \<Rightarrow> AppState" where
  "saveData data st =
     (case firebaseUser st of
        Some uid \<Rightarrow> st\<lparr> saves := saves st @ [(uid, data)] \<rparr>
      | None \<Rightarrow> st)"

text \<open>\<^verbatim>\<open>Array.prototype.findIndex\<close>; \<open>None\<close> is the result \<open>-1\<close>.\<close>

fun findIndex :: "('a \<Rightarrow> bool) \<Rightarrow> 'a list \<Rightarrow> nat option" where
  "findIndex P [] = None"
| "findIndex P (x # xs) = (if P x then Some 0 else map_option Suc (findIndex P xs))"

definition zero_nutrition :: Nutrition where
  "zero_nutrition = \<lparr> calories = 0, protein = 0, carbs = 0, fat = 0 \<rparr>"

definition add_meal_nutrition :: "Nutrition \<Rightarrow> Meal \<Rightarrow> Nutrition" where
  "add_meal_nutrition acc m =
     \<lparr> calories = calories acc + calories (totalNutrition m),
       protein = protein acc + protein (totalNutrition m),
       carbs = carbs acc + carbs (totalNutrition m),
       fat = fat acc + fat (totalNutrition m) \<rparr>"

definition addMeal :: "Meal \<Rightarrow> string \<Rightarrow> AppState \<Rightarrow> AppState" where
  "addMeal meal dateStr st =
     (let newLogs =
        (case findIndex (\<lambda>log. date log = dateStr) (dailyLogs st) of
           Some logIndex \<Rightarrow>
             (let updatedLog = dailyLogs st ! logIndex;
                  updatedLog = updatedLog\<lparr> meals := meals updatedLog @ [meal] \<rparr>;
                  updatedLog = updatedLog\<lparr> log_totalNutrition :=
                                 foldl add_meal_nutrition zero_nutrition (meals updatedLog) \<rparr>
              in (dailyLogs st)[logIndex := updatedLog])
         | None \<Rightarrow>
             dailyLogs st @ [\<lparr> date = dateStr, meals = [meal],
                                log_totalNutrition = totalNutrition meal,
                                log_weight = None \<rparr>])
      in saveData (no_fields\<lparr> p_dailyLogs := Some newLogs \<rparr>)
           (st\<lparr> dailyLogs := newLogs \<rparr>))"

text \<open>
  \<^verbatim>\<open>Array.prototype.sort\<close> with the comparator
  \<^verbatim>\<open>(a, b) => new Date(a.date).getTime() - new Date(b.date).getTime()\<close>: the sort is
  stable, and the comparator orders by the time value, so the result is the stable sort
  by that key.
\<close>

definition sort_by_time :: "WeightEntry list \<Rightarrow> WeightEntry list" where
  "sort_by_time ws = sort_key entry_time ws"

text \<open>
  \<open>parseDate\<close> is \<^verbatim>\<open>new Date(dateStr).getTime()\<close>, \<open>None\<close> for an invalid date, on which
  \<^verbatim>\<open>toISOString\<close> throws a \<^verbatim>\<open>RangeError\<close> before anything is changed. \<open>today\<close> is
  \<^verbatim>\<open>new Date().toISOString().split('T')[0]\<close> at the time of the call.
\<close>

definition addWeightEntry ::
  "(string \<Rightarrow> int option) \<Rightarrow> string \<Rightarrow> real \<Rightarrow> string \<Rightarrow> AppState \<Rightarrow> thrown + AppState" where
  "addWeightEntry parseDate today w dateStr st =
     (case parseDate dateStr of
        None \<Rightarrow> Inl (RangeError ''Invalid time value'')
      | Some t \<Rightarrow>
         (let newEntry = \<lparr> entry_time = t, entry_weight = w \<rparr>;
              newWeightLog = sort_by_time (weightLog st @ [newEntry]);
              updatedProfile =
                (case userProfile st of
                   Some p \<Rightarrow> (if dateStr = today then Some (p\<lparr> weight := w \<rparr>) else Some p)
                 | None \<Rightarrow> None);
              newLogs =
                (case findIndex (\<lambda>log. date log = dateStr) (dailyLogs st) of
                   Some logIndex \<Rightarrow>
                     (dailyLogs st)[logIndex := (dailyLogs st ! logIndex)\<lparr> log_weight := Some w \<rparr>]
                 | None \<Rightarrow>
                     dailyLogs st @ [\<lparr> date = dateStr, meals = [],
                                        log_totalNutrition = zero_nutrition,
                                        log_weight = Some w \<rparr>])
          in Inr (saveData (no_fields\<lparr> p_weightLog := Some newWeightLog,
                                       p_userProfile := Some updatedProfile,
                                       p_dailyLogs := Some newLogs \<rparr>)
                   (st\<lparr> weightLog := newWeightLog, userProfile := updatedProfile,
                        dailyLogs := newLogs \<rparr>))))"


section \<open>AI content fetcher: \<^verbatim>\<open>continueChat\<close>\<close>

text \<open>\<^verbatim>\<open>String.prototype.includes\<close>.\<close>

fun str_includes :: "string \<Rightarrow> string \<Rightarrow> bool" where
  "str_includes [] sub = (sub = [])"
| "str_includes (c # cs) sub = (take (length sub) (c # cs) = sub \<or> str_includes cs sub)"

text \<open>\<^verbatim>\<open>error instanceof Error ? error.message\<close>: every error class carries a message.\<close>

fun message_of :: "thrown \<Rightarrow> string option" where
  "message_of (Error m) = Some m"
| "message_of (SyntaxError m) = Some m"
| "message_of (RangeError m) = Some m"
| "message_of NonError = None"

fun is_SyntaxError :: "thrown \<Rightarrow> bool" where
  "is_SyntaxError (SyntaxError m) = True"
| "is_SyntaxError e = False"

definition handleGeminiError :: "thrown \<Rightarrow> string \<Rightarrow> thrown" where
  "handleGeminiError error context' =
     (let isSafetyOrParseError =
            (is_SyntaxError error \<or>
             (case message_of error of
                Some m \<Rightarrow> str_includes m ''candidateslist is empty''
                        \<or> str_includes m ''finish reason: 4''
                        \<or> str_includes m ''Received an empty response''
                        \<or> str_includes m ''Unexpected token''
              | None \<Rightarrow> False))
      in if isSafetyOrParseError then
           (if context' = ''meal analysis''
            then Error ''Only food-related images can be used here. The AI could not analyze the provided image.''
            else Error ''The AI model did not return a response, which may be due to the safety policy. Please try a different query or image.'')
         else
           (case message_of error of
              Some m \<Rightarrow>
                if str_includes m ''API_KEY environment variable not set''
                then Error ''Your Gemini API key is not configured. Please follow the instructions in the README.md file to set up your .env.local file.''
                else if str_includes m ''[400''
                then Error (''The request to the AI service was invalid during '' @ context'
                            @ ''. This might be an issue with the prompt or data format.'')
                else if str_includes m ''[403''
                then Error ''Your Gemini API key is invalid or lacks the necessary permissions. Please check your key and try again.''
                else Error (''An unexpected error occurred with the Gemini API during '' @ context'
                            @ ''. Please try again later.'')
            | None \<Rightarrow> Error (''An unexpected error occurred with the Gemini API during '' @ context'
                              @ ''. Please try again later.'')))"

text \<open>
  One step of the response stream: a chunk with its text delta and, possibly, grounding
  citations, or the stream failing. A stream is a finite list of steps; reaching its end
  is normal completion.
\<close>

datatype StreamEvent = Yield string "GroundingChunk list option" | Raise thrown

text \<open>
  The request sent to the model: the message list and the search-grounding toggle (the
  system instruction, a text built from profile, logs, weights and plan, is left out).
\<close>

type_synonym ChatRequest = "Content list \<times> bool"

text \<open>
  \<open>apiKey\<close> is \<^verbatim>\<open>process.env.API_KEY\<close>; \<open>generateContentStream\<close> is the external model.
  The result pairs the request that was sent, if one was, with what the call returns or
  throws.
\<close>

definition continueChat ::
  "string option \<Rightarrow> (ChatRequest \<Rightarrow> thrown + StreamEvent list) \<Rightarrow> ChatMessage list \<Rightarrow> string \<Rightarrow> bool
     \<Rightarrow> ChatRequest option \<times> (thrown + StreamEvent list)" where
  "continueChat apiKey generateContentStream history' userMessage useGoogleSearch =
     (if apiKey = None \<or> apiKey = Some []
      then (None, Inl (handleGeminiError (Error ''API_KEY environment variable not set.'') ''chat session''))
      else
        (let contents = map (\<lambda>h. (role h, parts h)) history';
             contents = contents @ [(User, [userMessage])]
         in (Some (contents, useGoogleSearch),
             (case generateContentStream (contents, useGoogleSearch) of
                Inl e \<Rightarrow> Inl (handleGeminiError e ''chat session'')
              | Inr response \<Rightarrow> Inr response))))"


section \<open>Session/state orchestrator: sending a chat message\<close>

text \<open>
  The update \<^verbatim>\<open>handleSendMessage\<close> writes out three times: in the given session list,
  the message \<open>modelMessageId\<close> of session \<open>activeId\<close> gets the text, and the latest
  citations if there are any.
\<close>

definition set_reply ::
  "string \<Rightarrow> string \<Rightarrow> string \<Rightarrow> GroundingChunk list option \<Rightarrow> ChatSession list \<Rightarrow> ChatSession list" where
  "set_reply activeId modelMessageId finalResponse latestGroundingChunks sessions =
     map (\<lambda>session.
            if session_id session = activeId
            then session\<lparr> history :=
                   map (\<lambda>msg. if msg_id msg = modelMessageId
                               then msg\<lparr> parts := [finalResponse],
                                        grounding := (case latestGroundingChunks of
                                                        Some g \<Rightarrow> Some g
                                                      | None \<Rightarrow> grounding msg) \<rparr>
                               else msg)
                       (history session) \<rparr>
            else session)
         sessions"

definition set_error :: "string \<Rightarrow> string \<Rightarrow> string \<Rightarrow> ChatSession list \<Rightarrow> ChatSession list" where
  "set_error activeId modelMessageId errorText sessions =
     map (\<lambda>session.
            if session_id session = activeId
            then session\<lparr> history :=
                   map (\<lambda>msg. if msg_id msg = modelMessageId
                               then msg\<lparr> parts := [errorText] \<rparr>
                               else msg)
                       (history session) \<rparr>
            else session)
         sessions"

text \<open>
  The \<^verbatim>\<open>for await\<close> loop. Each chunk extends \<open>finalResponse\<close> and patches the current
  state (\<^verbatim>\<open>setChatSessions(prev => ...)\<close>); a failing stream leaves the loop with the
  state as patched so far.
\<close>

fun consume_stream ::
  "string \<Rightarrow> string \<Rightarrow> StreamEvent list \<Rightarrow> string \<Rightarrow> GroundingChunk list option \<Rightarrow> AppState
     \<Rightarrow> (thrown + string \<times> GroundingChunk list option) \<times> AppState" where
  "consume_stream activeId modelMessageId [] finalResponse latest st =
     (Inr (finalResponse, latest), st)"
| "consume_stream activeId modelMessageId (Raise e # rest) finalResponse latest st =
     (Inl e, st)"
| "consume_stream activeId modelMessageId (Yield text newGrounding # rest) finalResponse latest st =
     (let finalResponse = finalResponse @ text;
          latest = (case newGrounding of Some g \<Rightarrow> Some g | None \<Rightarrow> latest)
      in consume_stream activeId modelMessageId rest finalResponse latest
           (st\<lparr> chatSessions :=
                  set_reply activeId modelMessageId finalResponse latest (chatSessions st) \<rparr>))"

text \<open>
  \<^verbatim>\<open>handleSendMessage\<close>, in the order of its text. \<open>add_turn\<close> is the \<^verbatim>\<open>map\<close> that
  builds \<^verbatim>\<open>updatedSessions\<close>: the active session gets the user message and the
  placeholder, and its title if this is its first message.
\<close>

definition add_turn ::
  "string \<Rightarrow> string \<Rightarrow> ChatMessage \<Rightarrow> ChatMessage \<Rightarrow> ChatSession list \<Rightarrow> ChatSession list" where
  "add_turn activeId message userMessage placeholderMessage sessions =
     map (\<lambda>session.
            if session_id session = activeId
            then session\<lparr> title := (if length (history session) = 0
                                       then take 30 message
                                            @ (if length message > 30 then ''...'' else [])
                                       else title session),
                           history := history session @ [userMessage, placeholderMessage] \<rparr>
            else session)
         sessions"

text \<open>
  The \<^verbatim>\<open>try\<close> block. \<open>closure_chatSessions\<close> is the \<^verbatim>\<open>chatSessions\<close> the callback
  closes over, that is, the list as it was when the handler was called; \<open>st\<close> is the
  state after \<^verbatim>\<open>setChatSessions(updatedSessions)\<close>. The result says whether the block
  threw.
\<close>

definition try_send ::
  "string option \<Rightarrow> (ChatRequest \<Rightarrow> thrown + StreamEvent list) \<Rightarrow> string \<Rightarrow> string
     \<Rightarrow> string \<Rightarrow> bool \<Rightarrow> ChatSession list \<Rightarrow> ChatSession list \<Rightarrow> AppState
     \<Rightarrow> (thrown + unit) \<times> AppState" where
  "try_send apiKey generateContentStream activeId modelMessageId message useGoogleSearch
       closure_chatSessions updatedSessions st =
     (case find (\<lambda>s. session_id s = activeId) updatedSessions of
        None \<Rightarrow> (Inl (Error ''Active session not found''), st)
      | Some currentSession \<Rightarrow>
         (let (request, response) =
                continueChat apiKey generateContentStream (history currentSession)
                  message useGoogleSearch;
              st = st\<lparr> fetches := fetches st
                           @ (case request of None \<Rightarrow> [] | Some r \<Rightarrow> [fst r]) \<rparr>
          in case response of
               Inl e \<Rightarrow> (Inl e, st)
             | Inr stream \<Rightarrow>
                (case consume_stream activeId modelMessageId stream [] None st of
                   (Inl e, st) \<Rightarrow> (Inl e, st)
                 | (Inr (finalResponse, latest), st) \<Rightarrow>
                    (let finalSessions =
                           set_reply activeId modelMessageId finalResponse latest
                             closure_chatSessions
                     in (Inr (),
                         saveData (no_fields\<lparr> p_chatSessions := Some finalSessions \<rparr>) st)))))"

text \<open>The \<^verbatim>\<open>catch\<close> block.\<close>

definition catch_send ::
  "string \<Rightarrow> string \<Rightarrow> ChatSession list \<Rightarrow> thrown \<Rightarrow> AppState \<Rightarrow> AppState" where
  "catch_send activeId modelMessageId closure_chatSessions error st =
     (let errorMessage = (case message_of error of
                            Some m \<Rightarrow> m
                          | None \<Rightarrow> ''An unexpected error occurred.'');
          errorSessions =
            set_error activeId modelMessageId (''Error: '' @ errorMessage) closure_chatSessions
      in saveData (no_fields\<lparr> p_chatSessions := Some errorSessions \<rparr>)
           (st\<lparr> chatSessions := errorSessions \<rparr>))"

text \<open>
  \<open>now_user\<close>, \<open>now_model\<close> are the renderings of the two \<^verbatim>\<open>Date.now()\<close> calls,
  \<open>iso_user\<close>, \<open>iso_model\<close> those of the two \<^verbatim>\<open>new Date().toISOString()\<close> calls.
\<close>

definition handleSendMessage ::
  "string option \<Rightarrow> (ChatRequest \<Rightarrow> thrown + StreamEvent list)
     \<Rightarrow> string \<Rightarrow> string \<Rightarrow> string \<Rightarrow> string
     \<Rightarrow> string \<Rightarrow> bool \<Rightarrow> AppState \<Rightarrow> AppState" where
  "handleSendMessage apiKey generateContentStream now_user now_model iso_user iso_model
       message useGoogleSearch st =
     (case (userProfile st, activeChatSessionId st) of
        (None, _) \<Rightarrow> st
      | (Some profile, None) \<Rightarrow> st
      | (Some profile, Some activeId) \<Rightarrow>
         if activeId = [] then st
         else
          (let closure_chatSessions = chatSessions st;
               userMessage = \<lparr> msg_id = ''user_'' @ now_user, role = User, parts = [message],
                               msg_timestamp = iso_user, grounding = None \<rparr>;
               modelMessageId = ''model_'' @ now_model;
               placeholderMessage = \<lparr> msg_id = modelMessageId, role = Model, parts = [[]],
                                      msg_timestamp = iso_model, grounding = None \<rparr>;
               st = st\<lparr> isAiReplying := True \<rparr>;
               updatedSessions =
                 add_turn activeId message userMessage placeholderMessage closure_chatSessions;
               st = st\<lparr> chatSessions := updatedSessions \<rparr>;
               (outcome, st) =
                 try_send apiKey generateContentStream activeId modelMessageId message
                   useGoogleSearch closure_chatSessions updatedSessions st;
               st = (case outcome of
                       Inr _ \<Rightarrow> st
                     | Inl error \<Rightarrow> catch_send activeId modelMessageId closure_chatSessions error st)
           in st\<lparr> isAiReplying := False \<rparr>))"


section \<open>Persistence gateway\<close>

text \<open>
  The gateway works on untyped JavaScript values: what it reads from the store is cast to
  \<^verbatim>\<open>UserData\<close>, not decoded. An object is the list of its own enumerable properties;
  \<open>JSpecial\<close> is an object that is not a plain one (a Timestamp, say), which the gateway
  passes through unopened.
\<close>

datatype jsval =
    JUndefined
  | JNull
  | JBool bool
  | JNum real
  | JStr string
  | JArr "jsval list"
  | JObj "(string \<times> jsval) list"
  | JSpecial string

text \<open>
  \<^verbatim>\<open>removeUndefinedValues\<close>: \<open>sanitize_items\<close> is the \<^verbatim>\<open>obj.map\<close> over an array,
  \<open>sanitize_props\<close> the \<^verbatim>\<open>for (const key in obj)\<close> loop over a plain object.
\<close>

fun removeUndefinedValues :: "jsval \<Rightarrow> jsval"
  and sanitize_items :: "jsval list \<Rightarrow> jsval list"
  and sanitize_props :: "(string \<times> jsval) list \<Rightarrow> (string \<times> jsval) list" where
  "removeUndefinedValues JUndefined = JNull"
| "removeUndefinedValues JNull = JNull"
| "removeUndefinedValues (JArr items) = JArr (sanitize_items items)"
| "removeUndefinedValues (JObj props) = JObj (sanitize_props props)"
| "removeUndefinedValues (JBool b) = JBool b"
| "removeUndefinedValues (JNum x) = JNum x"
| "removeUndefinedValues (JStr s) = JStr s"
| "removeUndefinedValues (JSpecial s) = JSpecial s"
| "sanitize_items [] = []"
| "sanitize_items (item # items) = removeUndefinedValues item # sanitize_items items"
| "sanitize_props [] = []"
| "sanitize_props ((key, value) # props) =
     (if value \<noteq> JUndefined
      then (key, removeUndefinedValues value) # sanitize_props props
      else sanitize_props props)"

text \<open>Whether a value holds \<^verbatim>\<open>undefined\<close> anywhere: itself, an array element, a property.\<close>

fun has_undefined :: "jsval \<Rightarrow> bool"
  and items_have_undefined :: "jsval list \<Rightarrow> bool"
  and props_have_undefined :: "(string \<times> jsval) list \<Rightarrow> bool" where
  "has_undefined JUndefined = True"
| "has_undefined JNull = False"
| "has_undefined (JBool b) = False"
| "has_undefined (JNum x) = False"
| "has_undefined (JStr s) = False"
| "has_undefined (JSpecial s) = False"
| "has_undefined (JArr items) = items_have_undefined items"
| "has_undefined (JObj props) = props_have_undefined props"
| "items_have_undefined [] = False"
| "items_have_undefined (item # items) = (has_undefined item \<or> items_have_undefined items)"
| "props_have_undefined [] = False"
| "props_have_undefined ((key, value) # props) = (has_undefined value \<or> props_have_undefined props)"

text \<open>
  A stored document is the list of its top-level fields; the \<^verbatim>\<open>users\<close> collection maps
  a user id to its document.
\<close>

type_synonym document = "(string \<times> jsval) list"

type_synonym firestore = "string \<Rightarrow> document option"

fun set_field :: "string \<Rightarrow> jsval \<Rightarrow> document \<Rightarrow> document" where
  "set_field k v [] = [(k, v)]"
| "set_field k v ((k', v') # flds) =
     (if k' = k then (k, v) # flds else (k', v') # set_field k v flds)"

fun merge_fields :: "document \<Rightarrow> (string \<times> jsval) list \<Rightarrow> document" where
  "merge_fields doc [] = doc"
| "merge_fields doc ((k, v) # new) = merge_fields (set_field k v doc) new"

text \<open>
  Modelled from the spec: the remote document store, which is not part of the repository
  (\<^verbatim>\<open>setDoc(ref, data, { merge: true })\<close> of the Firestore SDK). The specification
  describes it as a key-value service with set-merge semantics that shallow-merges the
  supplied fields into the stored document, leaves fields not supplied untouched, and
  rejects a payload that holds a missing-value marker.
\<close>

definition setDoc_merge :: "firestore \<Rightarrow> string \<Rightarrow> jsval \<Rightarrow> thrown + firestore" where
  "setDoc_merge store userId data =
     (case data of
        JObj flds \<Rightarrow>
          if has_undefined data
          then Inl (Error ''Unsupported field value: undefined'')
          else Inr (store(userId \<mapsto>
                      merge_fields (case store userId of None \<Rightarrow> [] | Some doc \<Rightarrow> doc) flds))
      | _ \<Rightarrow> Inl (Error ''Data must be an object''))"

text \<open>
  Modelled from the spec: the read of the remote document store (\<^verbatim>\<open>getDoc\<close> of the
  Firestore SDK, not part of the repository). It yields the stored document or signals
  that there is none; being a network call it may fail instead, \<open>failure\<close> being the
  error it then throws.
\<close>

definition getDoc :: "thrown option \<Rightarrow> firestore \<Rightarrow> string \<Rightarrow> thrown + document option" where
  "getDoc failure store userId =
     (case failure of Some e \<Rightarrow> Inl e | None \<Rightarrow> Inr (store userId))"

text \<open>
  \<open>db\<close> is \<open>None\<close> when Firebase is not configured or failed to initialise. A read
  that throws is caught and reported as no data, like a missing document.
\<close>

definition getUserData :: "firestore option \<Rightarrow> thrown option \<Rightarrow> string \<Rightarrow> jsval" where
  "getUserData db read_failure userId =
     (if userId = [] then JNull
      else case db of
             None \<Rightarrow> JNull
           | Some store \<Rightarrow>
               (case getDoc read_failure store userId of
                  Inr (Some doc) \<Rightarrow> JObj doc
                | Inr None \<Rightarrow> JNull
                | Inl error \<Rightarrow> JNull))"

definition saveUserData :: "firestore option \<Rightarrow> string \<Rightarrow> jsval \<Rightarrow> thrown + firestore" where
  "saveUserData db userId data =
     (if userId = [] then Inl (Error ''Firebase not initialized or user not logged in.'')
      else case db of
             None \<Rightarrow> Inl (Error ''Firebase not initialized or user not logged in.'')
           | Some store \<Rightarrow>
               (let sanitizedData = removeUndefinedValues data
                in setDoc_merge store userId sanitizedData))"


section \<open>Session/state orchestrator: identity resolution\<close>

text \<open>JavaScript truthiness, property access, and \<^verbatim>\<open>a || b\<close>.\<close>

fun truthy :: "jsval \<Rightarrow> bool" where
  "truthy JUndefined = False"
| "truthy JNull = False"
| "truthy (JBool b) = b"
| "truthy (JNum x) = (x \<noteq> 0)"
| "truthy (JStr s) = (s \<noteq> [])"
| "truthy (JArr items) = True"
| "truthy (JObj props) = True"
| "truthy (JSpecial s) = True"

fun get_prop :: "jsval \<Rightarrow> string \<Rightarrow> jsval" where
  "get_prop (JObj props) k = (case map_of props k of Some v \<Rightarrow> v | None \<Rightarrow> JUndefined)"
| "get_prop v k = JUndefined"

definition js_or :: "jsval \<Rightarrow> jsval \<Rightarrow> jsval" where
  "js_or a b = (if truthy a then a else b)"

text \<open>
  The identity-resolution protocol moves the six snapshot fields between memory, the
  guest reference and the store without looking into them, so here they are the
  JavaScript values they are at run time. \<open>guestDataRef\<close> is \<open>JNull\<close> or the captured
  object; \<open>db\<close> is the Firestore handle with the documents it holds.
\<close>

record IdentityState =
  db :: "firestore option"
  signedIn :: "string option"
  isGuest :: bool
  guestDataRef :: jsval
  mem_userProfile :: jsval
  mem_dailyLogs :: jsval
  mem_workoutPlan :: jsval
  mem_weightLog :: jsval
  mem_chatSessions :: jsval
  mem_activeChatSessionId :: jsval
  isUserDataLoading :: bool
  isAuthLoading :: bool

text \<open>The in-memory snapshot as a \<^verbatim>\<open>UserData\<close> object.\<close>

definition snapshot :: "IdentityState \<Rightarrow> jsval" where
  "snapshot st =
     JObj [(''userProfile'', mem_userProfile st),
           (''dailyLogs'', mem_dailyLogs st),
           (''workoutPlan'', mem_workoutPlan st),
           (''weightLog'', mem_weightLog st),
           (''chatSessions'', mem_chatSessions st),
           (''activeChatSessionId'', mem_activeChatSessionId st)]"

definition handleContinueAsGuest :: "IdentityState \<Rightarrow> IdentityState" where
  "handleContinueAsGuest st = st\<lparr> isGuest := True \<rparr>"

definition handleSignInAttempt :: "IdentityState \<Rightarrow> IdentityState" where
  "handleSignInAttempt st =
     (if isGuest st \<and> truthy (mem_userProfile st)
      then st\<lparr> guestDataRef := snapshot st \<rparr>
      else st\<lparr> guestDataRef := JNull \<rparr>)"

text \<open>
  The \<^verbatim>\<open>onAuthStateChanged\<close> callback, for a signed-in user (\<open>Some uid\<close>) or a sign-out
  (\<open>None\<close>); \<open>read_failure\<close> is the error the read of the store throws during this
  call, if it fails. The first component is what the callback throws, if it does; the
  state is the one reached then.
\<close>

definition onAuthStateChanged ::
  "thrown option \<Rightarrow> string option \<Rightarrow> IdentityState \<Rightarrow> thrown option \<times> IdentityState" where
  "onAuthStateChanged read_failure user st =
     (case user of
        Some uid \<Rightarrow>
          (let st = st\<lparr> isUserDataLoading := True, isGuest := False, signedIn := Some uid \<rparr>;
               existingFirebaseData = getUserData (db st) read_failure uid
           in if truthy existingFirebaseData \<and> truthy (get_prop existingFirebaseData ''userProfile'')
              then
                (None,
                 st\<lparr> mem_userProfile := js_or (get_prop existingFirebaseData ''userProfile'') JNull,
                     mem_dailyLogs := js_or (get_prop existingFirebaseData ''dailyLogs'') (JArr []),
                     mem_workoutPlan := js_or (get_prop existingFirebaseData ''workoutPlan'') JNull,
                     mem_weightLog := js_or (get_prop existingFirebaseData ''weightLog'') (JArr []),
                     mem_chatSessions := js_or (get_prop existingFirebaseData ''chatSessions'') (JArr []),
                     mem_activeChatSessionId :=
                       js_or (get_prop existingFirebaseData ''activeChatSessionId'') JNull,
                     isUserDataLoading := False, isAuthLoading := False \<rparr>)
              else if truthy (guestDataRef st)
              then
                (case saveUserData (db st) uid (guestDataRef st) of
                   Inl e \<Rightarrow> (Some e, st)
                 | Inr store \<Rightarrow>
                    (None,
                     st\<lparr> db := Some store,
                         mem_userProfile := get_prop (guestDataRef st) ''userProfile'',
                         mem_dailyLogs := get_prop (guestDataRef st) ''dailyLogs'',
                         mem_workoutPlan := get_prop (guestDataRef st) ''workoutPlan'',
                         mem_weightLog := get_prop (guestDataRef st) ''weightLog'',
                         mem_chatSessions := get_prop (guestDataRef st) ''chatSessions'',
                         mem_activeChatSessionId := get_prop (guestDataRef st) ''activeChatSessionId'',
                         guestDataRef := JNull,
                         isUserDataLoading := False, isAuthLoading := False \<rparr>))
              else
                (None,
                 st\<lparr> mem_userProfile := JNull, mem_dailyLogs := JArr [], mem_workoutPlan := JNull,
                     mem_weightLog := JArr [], mem_chatSessions := JArr [],
                     mem_activeChatSessionId := JNull,
                     isUserDataLoading := False, isAuthLoading := False \<rparr>))
      | None \<Rightarrow>
          (None,
           st\<lparr> guestDataRef := JNull, signedIn := None,
               mem_userProfile := JNull, mem_dailyLogs := JArr [], mem_workoutPlan := JNull,
               mem_weightLog := JArr [], mem_chatSessions := JArr [],
               mem_activeChatSessionId := JNull, isAuthLoading := False \<rparr>))"


section \<open>Specification-side notions and example inputs\<close>

text \<open>The element-wise sum of the meals' nutrition, as the specification words it.\<close>

definition nutrition_sum :: "Meal list \<Rightarrow> Nutrition" where
  "nutrition_sum ms =
     \<lparr> calories = sum_list (map (\<lambda>m. calories (totalNutrition m)) ms),
       protein = sum_list (map (\<lambda>m. protein (totalNutrition m)) ms),
       carbs = sum_list (map (\<lambda>m. carbs (totalNutrition m)) ms),
       fat = sum_list (map (\<lambda>m. fat (totalNutrition m)) ms) \<rparr>"


text \<open>
  A sequence of \<^verbatim>\<open>addWeightEntry\<close> calls, each with the calendar date current at the
  time, the weight and the date argument; the entries such a sequence adds.
\<close>

fun addWeightEntries ::
  "(string \<Rightarrow> int option) \<Rightarrow> (string \<times> real \<times> string) list \<Rightarrow> AppState \<Rightarrow> thrown + AppState" where
  "addWeightEntries parseDate [] st = Inr st"
| "addWeightEntries parseDate ((today, w, dateStr) # calls) st =
     (case addWeightEntry parseDate today w dateStr st of
        Inl e \<Rightarrow> Inl e
      | Inr st' \<Rightarrow> addWeightEntries parseDate calls st')"

fun added_entries :: "(string \<Rightarrow> int option) \<Rightarrow> (string \<times> real \<times> string) list \<Rightarrow> WeightEntry list" where
  "added_entries parseDate [] = []"
| "added_entries parseDate ((today, w, dateStr) # calls) =
     (case parseDate dateStr of
        None \<Rightarrow> added_entries parseDate calls
      | Some t \<Rightarrow> \<lparr> entry_time = t, entry_weight = w \<rparr> # added_entries parseDate calls)"

text \<open>Example inputs.\<close>

definition example_parseDate :: "string \<Rightarrow> int option" where
  "example_parseDate s =
     (if s = ''2024-05-10'' then Some 1715299200000
      else if s = ''2024-05-03'' then Some 1714694400000
      else None)"

definition example_profile :: UserProfile where
  "example_profile = \<lparr> name = ''Ada'', age = 30, sex = ''female'', height = 65, weight = 70,
       activityLevel = 1.375, goal = Lose, targetWeight = 65,
       registrationDate = ''2024-05-01T08:00:00.000Z'' \<rparr>"

definition example_state :: AppState where
  "example_state = \<lparr> firebaseUser = Some ''uid1'', userProfile = Some example_profile,
       dailyLogs = [], workoutPlan = None, weightLog = [], chatSessions = [],
       activeChatSessionId = None, isAiReplying = False, saves = [], fetches = [] \<rparr>"

definition example_calls :: "(string \<times> real \<times> string) list" where
  "example_calls = [(''2024-05-10'', 72, ''2024-05-10''), (''2024-05-10'', 68, ''2024-05-03'')]"

text \<open>The weight logged twice for one date; the history a run of calls ends with.\<close>

definition same_day_calls :: "(string \<times> real \<times> string) list" where
  "same_day_calls = [(''2024-05-10'', 72, ''2024-05-10''), (''2024-05-10'', 71.5, ''2024-05-10'')]"

definition result_weightLog :: "thrown + AppState \<Rightarrow> WeightEntry list" where
  "result_weightLog r = (case r of Inl e \<Rightarrow> [] | Inr st \<Rightarrow> weightLog st)"

text \<open>
  An example chat: a signed-in user with one session holding an earlier exchange, who
  sends \<^verbatim>\<open>Hi\<close>; a model that streams \<^verbatim>\<open>Hel\<close>, \<^verbatim>\<open>lo\<close> and completes, one whose
  stream breaks after the first chunk, and one that rejects the request.
\<close>

definition prior_question :: ChatMessage where
  "prior_question = \<lparr> msg_id = ''user_1715330000000'', role = User, parts = [''Is rice ok?''],
       msg_timestamp = ''2024-05-10T08:33:20.000Z'', grounding = None \<rparr>"

definition prior_answer :: ChatMessage where
  "prior_answer = \<lparr> msg_id = ''model_1715330000000'', role = Model, parts = [''Yes.''],
       msg_timestamp = ''2024-05-10T08:33:20.000Z'', grounding = None \<rparr>"

definition chat_session :: ChatSession where
  "chat_session = \<lparr> session_id = ''chat_1715329000000'', title = ''Is rice ok?'',
       history = [prior_question, prior_answer], createdAt = ''2024-05-10T08:16:40.000Z'' \<rparr>"

definition chat_state :: AppState where
  "chat_state = example_state\<lparr> chatSessions := [chat_session],
       activeChatSessionId := Some ''chat_1715329000000'' \<rparr>"

definition new_question :: ChatMessage where
  "new_question = \<lparr> msg_id = ''user_1715335200000'', role = User, parts = [''Hi''],
       msg_timestamp = ''2024-05-10T10:00:00.000Z'', grounding = None \<rparr>"

definition new_answer :: "string \<Rightarrow> ChatMessage" where
  "new_answer text = \<lparr> msg_id = ''model_1715335200000'', role = Model, parts = [text],
       msg_timestamp = ''2024-05-10T10:00:00.000Z'', grounding = None \<rparr>"

definition replying_model :: "ChatRequest \<Rightarrow> thrown + StreamEvent list" where
  "replying_model request = Inr [Yield ''Hel'' None, Yield ''lo'' None]"

definition breaking_model :: "ChatRequest \<Rightarrow> thrown + StreamEvent list" where
  "breaking_model request = Inr [Yield ''Hel'' None, Raise (Error ''network error'')]"

definition refusing_model :: "ChatRequest \<Rightarrow> thrown + StreamEvent list" where
  "refusing_model request = Inl (Error ''[403] forbidden'')"

definition send_hi :: "(ChatRequest \<Rightarrow> thrown + StreamEvent list) \<Rightarrow> AppState" where
  "send_hi model = handleSendMessage (Some ''key'') model ''1715335200000'' ''1715335200000''
       ''2024-05-10T10:00:00.000Z'' ''2024-05-10T10:00:00.000Z'' ''Hi'' False chat_state"

text \<open>
  \<open>fresh_id\<close>: no message of the given sessions has the identifier. \<open>completes\<close>: the
  stream ends without failing. \<open>sent_contents\<close>: the message list the handler sends for
  a session and a message text.
\<close>

definition fresh_id :: "string \<Rightarrow> ChatSession list \<Rightarrow> bool" where
  "fresh_id mid sessions = (\<forall>s\<in>set sessions. \<forall>m\<in>set (history s). msg_id m \<noteq> mid)"

fun completes :: "StreamEvent list \<Rightarrow> bool" where
  "completes [] = True"
| "completes (Yield text g # rest) = completes rest"
| "completes (Raise e # rest) = False"

definition sent_contents :: "ChatSession \<Rightarrow> string \<Rightarrow> Content list" where
  "sent_contents s msg = map (\<lambda>h. (role h, parts h)) (history s)
                            @ [(User, [msg]), (Model, ['''']), (User, [msg])]"

text \<open>A field of a user's stored document, if the document and the field exist.\<close>

definition stored_field :: "firestore \<Rightarrow> string \<Rightarrow> string \<Rightarrow> jsval option" where
  "stored_field store userId k = (case store userId of None \<Rightarrow> None | Some doc \<Rightarrow> map_of doc k)"

text \<open>
  Example inputs for the gateway: a stored document, and a partial snapshot with an
  undefined field, an undefined property inside an array element, and an undefined array
  element.
\<close>

definition example_store :: firestore where
  "example_store = Map.empty(''uidA'' \<mapsto> [(''workoutPlan'', JObj [(''planName'', JStr ''Base'')]),
                                          (''weightLog'', JArr [])])"

definition example_partial :: jsval where
  "example_partial = JObj [(''workoutPlan'', JUndefined),
                           (''weightLog'', JArr [JObj [(''weight'', JNum 70), (''note'', JUndefined)],
                                                 JUndefined])]"

text \<open>The six fields of a snapshot.\<close>

definition snapshot_keys :: "string list" where
  "snapshot_keys = [''userProfile'', ''dailyLogs'', ''workoutPlan'', ''weightLog'',
                    ''chatSessions'', ''activeChatSessionId'']"

text \<open>
  Example inputs for identity resolution: a store in which user \<^verbatim>\<open>uidA\<close> has a
  snapshot with a profile and user \<^verbatim>\<open>uidB\<close> has none; a guest session with a profile;
  the fields of that guest's snapshot; and the states reached when the guest attempts a
  sign-in, authenticates as \<^verbatim>\<open>uidA\<close>, and the next authentication event is for
  \<^verbatim>\<open>uidB\<close>.
\<close>

definition identity_store :: firestore where
  "identity_store = Map.empty(''uidA'' \<mapsto>
      [(''userProfile'', JObj [(''name'', JStr ''Ann''), (''weight'', JNum 60)]),
       (''dailyLogs'', JArr []),
       (''workoutPlan'', JNull),
       (''weightLog'', JArr [JObj [(''date'', JStr ''2024-04-01T00:00:00.000Z''),
                                   (''weight'', JNum 60)]]),
       (''chatSessions'', JArr []),
       (''activeChatSessionId'', JNull)])"

definition guest_state :: IdentityState where
  "guest_state = \<lparr> db = Some identity_store,
       signedIn = None, isGuest = True, guestDataRef = JNull,
       mem_userProfile = JObj [(''name'', JStr ''Gus''), (''weight'', JNum 80)],
       mem_dailyLogs = JArr [],
       mem_workoutPlan = JNull,
       mem_weightLog = JArr [JObj [(''date'', JStr ''2024-05-01T00:00:00.000Z''),
                                   (''weight'', JNum 80)]],
       mem_chatSessions = JArr [],
       mem_activeChatSessionId = JNull,
       isUserDataLoading = False, isAuthLoading = False \<rparr>"

definition guest_fields :: "(string \<times> jsval) list" where
  "guest_fields = [(''userProfile'', JObj [(''name'', JStr ''Gus''), (''weight'', JNum 80)]),
                   (''dailyLogs'', JArr []),
                   (''workoutPlan'', JNull),
                   (''weightLog'', JArr [JObj [(''date'', JStr ''2024-05-01T00:00:00.000Z''),
                                               (''weight'', JNum 80)]]),
                   (''chatSessions'', JArr []),
                   (''activeChatSessionId'', JNull)]"

definition after_existing_login :: IdentityState where
  "after_existing_login =
     snd (onAuthStateChanged None (Some ''uidA'') (handleSignInAttempt guest_state))"

definition after_next_login :: IdentityState where
  "after_next_login = snd (onAuthStateChanged None (Some ''uidB'') after_existing_login)"

text \<open>
  A guest as the app leaves one after a chat without web search and a plan whose image
  lookup found nothing: the model message has \<^verbatim>\<open>grounding: undefined\<close>, the workout
  \<^verbatim>\<open>imageUrl: undefined\<close>. \<open>after_migration\<close> is the state when this guest attempts a
  sign-in and authenticates as \<^verbatim>\<open>uidB\<close>.
\<close>

definition chatting_guest :: IdentityState where
  "chatting_guest = guest_state\<lparr>
       mem_workoutPlan := JObj [(''planName'', JStr ''Start''),
                                (''workouts'', JArr [JObj [(''exercise'', JStr ''Squat''),
                                                           (''imageUrl'', JUndefined)]])],
       mem_chatSessions := JArr [JObj [(''id'', JStr ''chat_1''),
           (''history'', JArr [JObj [(''id'', JStr ''user_1''), (''role'', JStr ''user''),
                                     (''parts'', JArr [JObj [(''text'', JStr ''Hi'')]])],
                               JObj [(''id'', JStr ''model_1''), (''role'', JStr ''model''),
                                     (''parts'', JArr [JObj [(''text'', JStr ''Hello'')]]),
                                     (''grounding'', JUndefined)]])]],
       mem_activeChatSessionId := JStr ''chat_1'' \<rparr>"

definition sanitized_chatSessions :: jsval where
  "sanitized_chatSessions = JArr [JObj [(''id'', JStr ''chat_1''),
           (''history'', JArr [JObj [(''id'', JStr ''user_1''), (''role'', JStr ''user''),
                                     (''parts'', JArr [JObj [(''text'', JStr ''Hi'')]])],
                               JObj [(''id'', JStr ''model_1''), (''role'', JStr ''model''),
                                     (''parts'', JArr [JObj [(''text'', JStr ''Hello'')]])]])]]"

definition after_migration :: IdentityState where
  "after_migration =
     snd (onAuthStateChanged None (Some ''uidB'') (handleSignInAttempt chatting_guest))"


section \<open>Verification: calorie goals\<close>

lemma Math_round_nearest: "\<bar>real_of_int (Math_round x) - x\<bar> \<le> 1 / 2"
  unfolding Math_round_def by linarith

text \<open>
  C10. For every profile the BMR output is the Mifflin-St Jeor value
  (10 * weight + 6.25 * (height in inches * 2.54) - 5 * age, plus 5 for male and minus 161
  otherwise), the target calories are TDEE = BMR * activity multiplier, minus 500 for
  \<open>Lose\<close>, plus 500 for \<open>Gain\<close>, unchanged for \<open>Maintain\<close>, and each output is that
  value rounded to the nearest integer.
\<close>

theorem calculateGoals_formula:
  "bmr (calculateGoals p) = Math_round (spec_bmr p)
   \<and> targetCalories (calculateGoals p) = Math_round (spec_targetCalories p)
   \<and> \<bar>real_of_int (bmr (calculateGoals p)) - spec_bmr p\<bar> \<le> 1 / 2
   \<and> \<bar>real_of_int (targetCalories (calculateGoals p)) - spec_targetCalories p\<bar> \<le> 1 / 2"
proof -
  have b: "bmr (calculateGoals p) = Math_round (spec_bmr p)"
    by (simp add: calculateGoals_def spec_bmr_def Let_def)
  have t: "targetCalories (calculateGoals p) = Math_round (spec_targetCalories p)"
    by (cases "goal p")
       (simp_all add: calculateGoals_def spec_targetCalories_def spec_tdee_def spec_bmr_def Let_def)
  show ?thesis
    unfolding b t using Math_round_nearest by simp
qed


section \<open>Verification: adding a meal\<close>

lemma foldl_add_meal_nutrition:
  "foldl add_meal_nutrition acc ms =
     \<lparr> calories = calories acc + calories (nutrition_sum ms),
       protein = protein acc + protein (nutrition_sum ms),
       carbs = carbs acc + carbs (nutrition_sum ms),
       fat = fat acc + fat (nutrition_sum ms) \<rparr>"
  by (induction ms arbitrary: acc) (simp_all add: add_meal_nutrition_def nutrition_sum_def add.assoc)

lemma foldl_zero_nutrition: "foldl add_meal_nutrition zero_nutrition ms = nutrition_sum ms"
  by (simp add: foldl_add_meal_nutrition zero_nutrition_def nutrition_sum_def)

lemma findIndex_None: "findIndex P xs = None \<longleftrightarrow> (\<forall>x\<in>set xs. \<not> P x)"
  by (induction xs) auto

lemma findIndex_Some:
  "findIndex P xs = Some i \<Longrightarrow> i < length xs \<and> P (xs ! i) \<and> find P xs = Some (xs ! i)
     \<and> (\<forall>j<i. \<not> P (xs ! j))"
proof (induction xs arbitrary: i)
  case Nil
  then show ?case by simp
next
  case (Cons x xs)
  show ?case
  proof (cases "P x")
    case True
    with Cons.prems show ?thesis by simp
  next
    case False
    with Cons.prems obtain k where k: "findIndex P xs = Some k" "i = Suc k"
      by auto
    from Cons.IH[OF k(1)] False k(2) show ?thesis
      by (auto simp: less_Suc_eq_0_disj)
  qed
qed

lemma find_None_findIndex: "findIndex P xs = None \<Longrightarrow> find P xs = None"
  by (induction xs) (auto split: if_splits)

lemma find_snoc:
  "find P (xs @ [y]) = (case find P xs of None \<Rightarrow> (if P y then Some y else None) | Some x \<Rightarrow> Some x)"
  by (induction xs) auto

lemma find_update_first:
  "findIndex P xs = Some i \<Longrightarrow> P y \<Longrightarrow> find P (xs[i := y]) = Some y"
proof (induction xs arbitrary: i)
  case Nil
  then show ?case by simp
next
  case (Cons x xs)
  then show ?case by (cases "P x") auto
qed

lemma filter_update_other:
  "i < length xs \<Longrightarrow> \<not> Q (xs ! i) \<Longrightarrow> \<not> Q y \<Longrightarrow> filter Q (xs[i := y]) = filter Q xs"
proof (induction xs arbitrary: i)
  case Nil
  then show ?case by simp
next
  case (Cons x xs)
  then show ?case by (cases i) auto
qed

lemma dailyLogs_saveData [simp]: "dailyLogs (saveData d st) = dailyLogs st"
  by (simp add: saveData_def split: option.splits)

text \<open>
  C4. After \<open>addMeal meal d\<close> the daily log for \<open>d\<close> exists, its total nutrition is the
  element-wise sum over the meals it contains, its meals are the previous ones of that
  date (none if there was no log) with the new meal last, and the logs of all other dates
  are unchanged.
\<close>

theorem addMeal_aggregate:
  "\<exists>l. find (\<lambda>log. date log = d) (dailyLogs (addMeal meal d st)) = Some l
        \<and> log_totalNutrition l = nutrition_sum (meals l)
        \<and> meals l = (case find (\<lambda>log. date log = d) (dailyLogs st) of
                       None \<Rightarrow> [] | Some l0 \<Rightarrow> meals l0) @ [meal]
        \<and> filter (\<lambda>log. date log \<noteq> d) (dailyLogs (addMeal meal d st))
            = filter (\<lambda>log. date log \<noteq> d) (dailyLogs st)"
proof (cases "findIndex (\<lambda>log. date log = d) (dailyLogs st)")
  case None
  have nf: "find (\<lambda>log. date log = d) (dailyLogs st) = None"
    using None by (rule find_None_findIndex)
  have all: "\<forall>x\<in>set (dailyLogs st). date x \<noteq> d"
    using None by (simp add: findIndex_None)
  have logs: "dailyLogs (addMeal meal d st) =
      dailyLogs st @ [\<lparr> date = d, meals = [meal], log_totalNutrition = totalNutrition meal,
                         log_weight = None \<rparr>]"
    by (simp add: addMeal_def None Let_def)
  have f: "find (\<lambda>log. date log = d) (dailyLogs (addMeal meal d st)) =
      Some \<lparr> date = d, meals = [meal], log_totalNutrition = totalNutrition meal, log_weight = None \<rparr>"
    unfolding logs using nf by (simp add: find_snoc)
  show ?thesis
    unfolding f by (simp add: nf nutrition_sum_def logs)
next
  case (Some i)
  note fi = findIndex_Some[OF Some]
  let ?l0 = "dailyLogs st ! i"
  let ?l = "?l0\<lparr> meals := meals ?l0 @ [meal],
                 log_totalNutrition := foldl add_meal_nutrition zero_nutrition (meals ?l0 @ [meal]) \<rparr>"
  have logs: "dailyLogs (addMeal meal d st) = (dailyLogs st)[i := ?l]"
    by (simp add: addMeal_def Some Let_def)
  have d: "date ?l = d" using fi by simp
  have f: "find (\<lambda>log. date log = d) (dailyLogs (addMeal meal d st)) = Some ?l"
    unfolding logs by (rule find_update_first[OF Some]) (rule d)
  have oth: "filter (\<lambda>log. date log \<noteq> d) ((dailyLogs st)[i := ?l])
            = filter (\<lambda>log. date log \<noteq> d) (dailyLogs st)"
    by (rule filter_update_other) (use fi d in auto)
  show ?thesis
    unfolding f using fi oth by (simp add: foldl_zero_nutrition logs del: foldl_append)
qed


section \<open>Verification: weight entries\<close>

lemma weightLog_saveData [simp]: "weightLog (saveData d st) = weightLog st"
  by (simp add: saveData_def split: option.splits)

lemma userProfile_saveData [simp]: "userProfile (saveData d st) = userProfile st"
  by (simp add: saveData_def split: option.splits)

lemma addWeightEntry_weightLog:
  assumes "parseDate dateStr = Some t"
  shows "\<exists>st'. addWeightEntry parseDate today w dateStr st = Inr st'
           \<and> weightLog st' = sort_by_time (weightLog st @ [\<lparr> entry_time = t, entry_weight = w \<rparr>])"
  using assms by (simp add: addWeightEntry_def Let_def)

lemma sort_key_resort: "sort_key f (sort_key f xs @ ys) = sort_key f (xs @ ys)"
proof -
  have "sort_key f (xs @ ys) = sort_key f (sort_key f xs @ ys)"
  proof (rule properties_for_sort_key)
    show "mset (sort_key f (sort_key f xs @ ys)) = mset (xs @ ys)" by simp
    show "sorted (map f (sort_key f (sort_key f xs @ ys)))" by simp
    fix k
    show "filter (\<lambda>x. f k = f x) (sort_key f (sort_key f xs @ ys)) = filter (\<lambda>x. f k = f x) (xs @ ys)"
      using sort_key_stable[of f "f k" "sort_key f xs @ ys"] sort_key_stable[of f "f k" xs]
      by (simp add: eq_commute[of "f k"])
  qed
  then show ?thesis by simp
qed

lemma sort_by_time_resort: "sort_by_time (sort_by_time ws @ es) = sort_by_time (ws @ es)"
  unfolding sort_by_time_def by (rule sort_key_resort)

lemma addWeightEntries_stable:
  assumes "\<forall>c\<in>set calls. parseDate (snd (snd c)) \<noteq> None" and "calls \<noteq> []"
  shows "\<exists>st'. addWeightEntries parseDate calls st = Inr st'
          \<and> weightLog st' = sort_by_time (weightLog st @ added_entries parseDate calls)"
  using assms
proof (induction calls arbitrary: st)
  case Nil
  then show ?case by simp
next
  case (Cons c calls)
  obtain today w d where c: "c = (today, w, d)" by (cases c) auto
  from Cons.prems c obtain t where t: "parseDate d = Some t" by auto
  from addWeightEntry_weightLog[where parseDate = parseDate and dateStr = d and t = t
      and today = today and w = w and st = st, OF t]
  obtain st1 where st1: "addWeightEntry parseDate today w d st = Inr st1"
      "weightLog st1 = sort_by_time (weightLog st @ [\<lparr> entry_time = t, entry_weight = w \<rparr>])"
    by (elim exE conjE) (rule that)
  show ?case
  proof (cases "calls = []")
    case True
    then show ?thesis by (simp add: c st1 t)
  next
    case False
    have rest: "\<forall>c\<in>set calls. parseDate (snd (snd c)) \<noteq> None"
      using Cons.prems by simp
    from Cons.IH[OF rest False, of st1]
    obtain st' where st': "addWeightEntries parseDate calls st1 = Inr st'"
      "weightLog st' = sort_by_time (weightLog st1 @ added_entries parseDate calls)"
      by (elim exE conjE) (rule that)
    have "weightLog st' = sort_by_time (weightLog st @ added_entries parseDate (c # calls))"
      unfolding st'(2) st1(2) sort_by_time_resort by (simp add: c t)
    then show ?thesis by (simp add: c st1(1) st'(1))
  qed
qed

text \<open>
  C5 (as amended). For every sequence of \<open>addWeightEntry\<close> calls with valid dates, in any
  order of dates and from any earlier history, the weight history afterwards holds
  exactly the earlier entries and the entries added (as a multiset) and is sorted
  ascending by date, not strictly: it is the stable sort of the entries in the order they
  were added, so entries of one date are all kept, in that order. The order is strictly
  chronological when the dates of all entries are pairwise distinct. Every prefix of a
  sequence of calls is a sequence of calls, so this is the history after each call.
\<close>

theorem addWeightEntries_history:
  assumes "\<forall>c\<in>set calls. parseDate (snd (snd c)) \<noteq> None" and "calls \<noteq> []"
  shows "\<exists>st'. addWeightEntries parseDate calls st = Inr st'
          \<and> mset (weightLog st') = mset (weightLog st) + mset (added_entries parseDate calls)
          \<and> sorted (map entry_time (weightLog st'))
          \<and> weightLog st' = sort_key entry_time (weightLog st @ added_entries parseDate calls)
          \<and> (\<forall>t. filter (\<lambda>e. entry_time e = t) (weightLog st')
                 = filter (\<lambda>e. entry_time e = t) (weightLog st @ added_entries parseDate calls))
          \<and> (distinct (map entry_time (weightLog st @ added_entries parseDate calls))
               \<longrightarrow> sorted_wrt (<) (map entry_time (weightLog st')))"
proof -
  from addWeightEntries_stable[OF assms, of st]
  obtain st' where st': "addWeightEntries parseDate calls st = Inr st'"
      "weightLog st' = sort_by_time (weightLog st @ added_entries parseDate calls)"
    by (elim exE conjE) (rule that)
  let ?all = "weightLog st @ added_entries parseDate calls"
  have w: "weightLog st' = sort_key entry_time ?all"
    using st'(2) by (simp add: sort_by_time_def)
  have m: "mset (weightLog st') = mset (weightLog st) + mset (added_entries parseDate calls)"
    unfolding w by simp
  have s: "sorted (map entry_time (weightLog st'))"
    unfolding w by simp
  have f: "\<forall>t. filter (\<lambda>e. entry_time e = t) (weightLog st') = filter (\<lambda>e. entry_time e = t) ?all"
    unfolding w by (simp add: sort_key_stable)
  have d: "sorted_wrt (<) (map entry_time (weightLog st'))"
    if "distinct (map entry_time ?all)"
  proof -
    have "mset (map entry_time (weightLog st')) = mset (map entry_time ?all)"
      unfolding w by simp
    with that have "distinct (map entry_time (weightLog st'))"
      by (metis distinct_count_atmost_1 set_mset_mset)
    with s show ?thesis by (simp add: strict_sorted_iff)
  qed
  from d have d': "distinct (map entry_time ?all)
               \<longrightarrow> sorted_wrt (<) (map entry_time (weightLog st'))"
    by (rule impI)
  show ?thesis
    by (intro exI[of _ st'] conjI) (fact st'(1) m s w f d')+
qed

lemma example_run_weightLog:
  "weightLog example_state @ added_entries example_parseDate example_calls
     = [\<lparr> entry_time = 1715299200000, entry_weight = 72 \<rparr>,
        \<lparr> entry_time = 1714694400000, entry_weight = 68 \<rparr>]"
  by (simp add: example_calls_def example_parseDate_def example_state_def)

theorem addWeightEntries_history_witness:
  "example_calls \<noteq> []
   \<and> example_parseDate ''2024-05-10'' \<noteq> None \<and> example_parseDate ''2024-05-03'' \<noteq> None
   \<and> (\<exists>st'. addWeightEntries example_parseDate example_calls example_state = Inr st'
          \<and> weightLog st' = [\<lparr> entry_time = 1714694400000, entry_weight = 68 \<rparr>,
                             \<lparr> entry_time = 1715299200000, entry_weight = 72 \<rparr>]
          \<and> sorted_wrt (<) (map entry_time (weightLog st')))"
proof -
  have h1: "\<forall>c\<in>set example_calls. example_parseDate (snd (snd c)) \<noteq> None"
    by (simp add: example_calls_def example_parseDate_def)
  have h2: "example_calls \<noteq> []"
    by (simp add: example_calls_def)
  have p: "example_parseDate ''2024-05-10'' \<noteq> None" "example_parseDate ''2024-05-03'' \<noteq> None"
    by (simp_all add: example_parseDate_def)
  let ?all = "weightLog example_state @ added_entries example_parseDate example_calls"
  from addWeightEntries_history[OF h1 h2, of example_state]
  obtain st' where r:
      "addWeightEntries example_parseDate example_calls example_state = Inr st'
       \<and> mset (weightLog st') = mset (weightLog example_state)
                                  + mset (added_entries example_parseDate example_calls)
       \<and> sorted (map entry_time (weightLog st'))
       \<and> weightLog st' = sort_key entry_time ?all
       \<and> (\<forall>t. filter (\<lambda>e. entry_time e = t) (weightLog st')
              = filter (\<lambda>e. entry_time e = t) ?all)
       \<and> (distinct (map entry_time ?all) \<longrightarrow> sorted_wrt (<) (map entry_time (weightLog st')))"
    by (elim exE) (rule that)
  note c1 = r[THEN conjunct2]
  note c2 = c1[THEN conjunct2]
  note c3 = c2[THEN conjunct2]
  note c4 = c3[THEN conjunct2]
  note run = r[THEN conjunct1] and w = c3[THEN conjunct1] and d = c4[THEN conjunct2]
  have w': "weightLog st' = [\<lparr> entry_time = 1714694400000, entry_weight = 68 \<rparr>,
                             \<lparr> entry_time = 1715299200000, entry_weight = 72 \<rparr>]"
    unfolding w example_run_weightLog by simp
  have "distinct (map entry_time ?all)"
    unfolding example_run_weightLog by simp
  with d have s: "sorted_wrt (<) (map entry_time (weightLog st'))"
    by (rule mp)
  show ?thesis
    by (intro conjI exI[of _ st']) (fact h2 p run w' s)+
qed

text \<open>
  C5 as stated fails: the claim has the history in strict chronological order after
  every sequence of calls, but a weight logged twice for one date leaves two entries of
  that date side by side.
\<close>

theorem same_day_entries_not_strict:
  "map entry_time (result_weightLog (addWeightEntries example_parseDate same_day_calls example_state))
     = [1715299200000, 1715299200000]
   \<and> \<not> sorted_wrt (<) (map entry_time
          (result_weightLog (addWeightEntries example_parseDate same_day_calls example_state)))"
  by (simp add: result_weightLog_def same_day_calls_def example_parseDate_def example_state_def
      addWeightEntry_def Let_def sort_by_time_def saveData_def)

text \<open>
  C6. \<open>addWeightEntry w D\<close> with a valid date sets the profile weight to \<open>w\<close> when \<open>D\<close> is
  the current calendar date and leaves the profile unchanged for any other date; in both
  cases the daily log for \<open>D\<close> gets weight \<open>w\<close>, keeping its meals and total if it existed
  and being created with no meals if not, and the logs of other dates are unchanged.
\<close>

theorem addWeightEntry_current_weight:
  assumes "parseDate D = Some t"
  shows "\<exists>st'. addWeightEntry parseDate today w D st = Inr st'
     \<and> userProfile st' = (if D = today
                           then map_option (\<lambda>p. p\<lparr> weight := w \<rparr>) (userProfile st)
                           else userProfile st)
     \<and> (\<exists>l. find (\<lambda>log. date log = D) (dailyLogs st') = Some l \<and> log_weight l = Some w
            \<and> (case find (\<lambda>log. date log = D) (dailyLogs st) of
                  None \<Rightarrow> meals l = [] \<and> log_totalNutrition l = zero_nutrition
                | Some l0 \<Rightarrow> meals l = meals l0 \<and> log_totalNutrition l = log_totalNutrition l0))
     \<and> filter (\<lambda>log. date log \<noteq> D) (dailyLogs st')
         = filter (\<lambda>log. date log \<noteq> D) (dailyLogs st)"
proof -
  let ?newLogs = "(case findIndex (\<lambda>log. date log = D) (dailyLogs st) of
                   Some logIndex \<Rightarrow>
                     (dailyLogs st)[logIndex := (dailyLogs st ! logIndex)\<lparr> log_weight := Some w \<rparr>]
                 | None \<Rightarrow>
                     dailyLogs st @ [\<lparr> date = D, meals = [],
                                        log_totalNutrition = zero_nutrition,
                                        log_weight = Some w \<rparr>])"
  obtain st' where run: "addWeightEntry parseDate today w D st = Inr st'"
    and prof: "userProfile st' = (if D = today
                           then map_option (\<lambda>p. p\<lparr> weight := w \<rparr>) (userProfile st)
                           else userProfile st)"
    and logs: "dailyLogs st' = ?newLogs"
    using assms by (cases "userProfile st") (simp_all add: addWeightEntry_def Let_def)
  have day: "\<exists>l. find (\<lambda>log. date log = D) ?newLogs = Some l \<and> log_weight l = Some w
            \<and> (case find (\<lambda>log. date log = D) (dailyLogs st) of
                  None \<Rightarrow> meals l = [] \<and> log_totalNutrition l = zero_nutrition
                | Some l0 \<Rightarrow> meals l = meals l0 \<and> log_totalNutrition l = log_totalNutrition l0)"
  proof (cases "findIndex (\<lambda>log. date log = D) (dailyLogs st)")
    case None
    then have "find (\<lambda>log. date log = D) (dailyLogs st) = None"
      by (rule find_None_findIndex)
    then show ?thesis by (simp add: None find_snoc)
  next
    case (Some i)
    note fi = findIndex_Some[OF Some]
    have "find (\<lambda>log. date log = D)
            ((dailyLogs st)[i := (dailyLogs st ! i)\<lparr> log_weight := Some w \<rparr>])
          = Some ((dailyLogs st ! i)\<lparr> log_weight := Some w \<rparr>)"
      by (rule find_update_first[OF Some]) (use fi in simp)
    then show ?thesis using fi by (simp add: Some)
  qed
  have oth: "filter (\<lambda>log. date log \<noteq> D) ?newLogs = filter (\<lambda>log. date log \<noteq> D) (dailyLogs st)"
  proof (cases "findIndex (\<lambda>log. date log = D) (dailyLogs st)")
    case None
    then show ?thesis by simp
  next
    case (Some i)
    note fi = findIndex_Some[OF Some]
    have "filter (\<lambda>log. date log \<noteq> D)
            ((dailyLogs st)[i := (dailyLogs st ! i)\<lparr> log_weight := Some w \<rparr>])
          = filter (\<lambda>log. date log \<noteq> D) (dailyLogs st)"
      by (rule filter_update_other) (use fi in auto)
    then show ?thesis by (simp add: Some)
  qed
  from day obtain l where l: "find (\<lambda>log. date log = D) (dailyLogs st') = Some l"
      "log_weight l = Some w"
      "(case find (\<lambda>log. date log = D) (dailyLogs st) of
                  None \<Rightarrow> meals l = [] \<and> log_totalNutrition l = zero_nutrition
                | Some l0 \<Rightarrow> meals l = meals l0 \<and> log_totalNutrition l = log_totalNutrition l0)"
    unfolding logs by blast
  have oth': "filter (\<lambda>log. date log \<noteq> D) (dailyLogs st')
         = filter (\<lambda>log. date log \<noteq> D) (dailyLogs st)"
    unfolding logs by (rule oth)
  show ?thesis
    by (intro exI[of _ st'] conjI exI[of _ l]) (fact run prof l oth')+
qed

theorem addWeightEntry_current_weight_witness:
  "example_parseDate ''2024-05-10'' = Some 1715299200000
   \<and> example_parseDate ''2024-05-03'' = Some 1714694400000
   \<and> (\<exists>st1 st2. addWeightEntry example_parseDate ''2024-05-10'' 72 ''2024-05-10'' example_state = Inr st1
         \<and> map_option weight (userProfile st1) = Some 72
         \<and> addWeightEntry example_parseDate ''2024-05-10'' 68 ''2024-05-03'' st1 = Inr st2
         \<and> map_option weight (userProfile st2) = Some 72
         \<and> map (\<lambda>l. (date l, log_weight l)) (dailyLogs st2)
             = [(''2024-05-10'', Some 72), (''2024-05-03'', Some 68)])"
proof -
  have p1: "example_parseDate ''2024-05-10'' = Some 1715299200000"
    and p2: "example_parseDate ''2024-05-03'' = Some 1714694400000"
    by (simp_all add: example_parseDate_def)
  from addWeightEntry_current_weight[where parseDate = example_parseDate and D = "''2024-05-10''"
      and today = "''2024-05-10''" and w = 72 and st = example_state, OF p1]
  obtain st1 where st1:
      "addWeightEntry example_parseDate ''2024-05-10'' 72 ''2024-05-10'' example_state = Inr st1"
      "userProfile st1 = map_option (\<lambda>p. p\<lparr> weight := 72 \<rparr>) (userProfile example_state)"
    by auto
  from addWeightEntry_current_weight[where parseDate = example_parseDate and D = "''2024-05-03''"
      and today = "''2024-05-10''" and w = 68 and st = st1, OF p2]
  obtain st2 where st2:
      "addWeightEntry example_parseDate ''2024-05-10'' 68 ''2024-05-03'' st1 = Inr st2"
      "userProfile st2 = userProfile st1"
    by auto
  have logs1: "dailyLogs st1 = [\<lparr> date = ''2024-05-10'', meals = [],
                  log_totalNutrition = zero_nutrition, log_weight = Some 72 \<rparr>]"
    using st1(1) by (auto simp: addWeightEntry_def p1 Let_def example_state_def)
  have logs2: "map (\<lambda>l. (date l, log_weight l)) (dailyLogs st2)
             = [(''2024-05-10'', Some 72), (''2024-05-03'', Some 68)]"
    using st2(1) by (auto simp: addWeightEntry_def p2 Let_def logs1)
  have w1: "map_option weight (userProfile st1) = Some 72"
    by (simp add: st1(2) example_state_def)
  have w2: "map_option weight (userProfile st2) = Some 72"
    by (simp add: st2(2) w1)
  show ?thesis
    by (intro conjI exI[of _ st1] exI[of _ st2]) (fact p1 p2 st1(1) st2(1) w1 w2 logs2)+
qed


section \<open>Verification: sending a chat message\<close>

lemma set_reply_fresh: "fresh_id mid sessions \<Longrightarrow> set_reply a mid r g sessions = sessions"
  unfolding set_reply_def fresh_id_def
  by (intro map_idI) (auto intro!: map_idI simp: map_idI)

lemma set_error_fresh: "fresh_id mid sessions \<Longrightarrow> set_error a mid r sessions = sessions"
  unfolding set_error_def fresh_id_def
  by (intro map_idI) (auto intro!: map_idI simp: map_idI)

lemma consume_stream_frame:
  "saves (snd (consume_stream a mid stream fr lg st)) = saves st
   \<and> firebaseUser (snd (consume_stream a mid stream fr lg st)) = firebaseUser st
   \<and> fetches (snd (consume_stream a mid stream fr lg st)) = fetches st
   \<and> (completes stream \<longleftrightarrow> \<not> isl (fst (consume_stream a mid stream fr lg st)))"
  by (induction a mid stream fr lg st rule: consume_stream.induct) (simp_all add: Let_def)

lemma find_add_turn:
  assumes "find (\<lambda>s. session_id s = a) sessions = Some s"
  shows "\<exists>cur. find (\<lambda>s. session_id s = a) (add_turn a msg um pm sessions) = Some cur
           \<and> history cur = history s @ [um, pm]"
  using assms unfolding add_turn_def by (induction sessions) (auto split: if_splits)

lemma try_send_general:
  fixes model :: "ChatRequest \<Rightarrow> thrown + StreamEvent list" and msg :: string and search :: bool
  assumes key: "apiKey = Some k" "k \<noteq> []"
    and uid: "firebaseUser st = Some uid"
    and cur: "find (\<lambda>s. session_id s = a) updated = Some cur"
    and fresh: "fresh_id mid closure"
  defines "contents \<equiv> map (\<lambda>h. (role h, parts h)) (history cur) @ [(User, [msg])]"
  shows "\<exists>out st'. try_send apiKey model a mid msg search closure updated st = (out, st')
     \<and> fetches st' = fetches st @ [contents]
     \<and> firebaseUser st' = Some uid
     \<and> saves st' = saves st @ (if isl out then []
                                else [(uid, no_fields\<lparr> p_chatSessions := Some closure \<rparr>)])
     \<and> (isl out \<longleftrightarrow> (case model (contents, search) of
                         Inl e \<Rightarrow> True | Inr stream \<Rightarrow> \<not> completes stream))"
proof -
  let ?st1 = "st\<lparr> fetches := fetches st @ [contents] \<rparr>"
  have cc: "continueChat apiKey model (history cur) msg search
      = (Some (contents, search),
         case model (contents, search) of
           Inl e \<Rightarrow> Inl (handleGeminiError e ''chat session'') | Inr r \<Rightarrow> Inr r)"
    unfolding continueChat_def Let_def contents_def using key by simp
  show ?thesis
  proof (cases "model (contents, search)")
    case (Inl e)
    then show ?thesis
      by (simp add: try_send_def cur cc uid)
  next
    case (Inr stream)
    obtain out st3 where cs: "consume_stream a mid stream [] None ?st1 = (out, st3)"
      by fastforce
    from consume_stream_frame[of a mid stream "[]" None ?st1]
    have frame: "saves st3 = saves st" "firebaseUser st3 = Some uid"
        "fetches st3 = fetches st @ [contents]" "completes stream \<longleftrightarrow> \<not> isl out"
      unfolding cs by (simp_all add: uid)
    show ?thesis
    proof (cases out)
      case (Inl e)
      with frame show ?thesis
        by (simp add: try_send_def cur cc Inr cs)
    next
      case r: (Inr res)
      obtain fr lg where res: "res = (fr, lg)" by (cases res) auto
      from frame show ?thesis
        by (simp add: try_send_def cur cc Inr cs r res saveData_def set_reply_fresh[OF fresh])
    qed
  qed
qed

lemma catch_send_general:
  assumes "firebaseUser st = Some uid" and "fresh_id mid closure"
  shows "catch_send a mid closure e st
     = st\<lparr> chatSessions := closure,
           saves := saves st @ [(uid, no_fields\<lparr> p_chatSessions := Some closure \<rparr>)] \<rparr>"
  using assms by (simp add: catch_send_def Let_def set_error_fresh saveData_def)

text \<open>
  The evaluations below are instances of one fact. Whenever the model-message
  identifier is new, whatever the model does: the message list sent is the history with
  the user message, the placeholder and the user message again; the collection handed to
  the gateway is the session list as it was before the send; and on a failure the
  in-memory session list is put back to that list.
\<close>

lemma send_general:
  fixes model :: "ChatRequest \<Rightarrow> thrown + StreamEvent list"
    and now_user now_model iso_user iso_model msg :: string and search :: bool
  assumes prof: "userProfile st = Some p"
    and act: "activeChatSessionId st = Some a" "a \<noteq> []"
    and key: "apiKey = Some k" "k \<noteq> []"
    and uid: "firebaseUser st = Some uid"
    and sess: "find (\<lambda>s. session_id s = a) (chatSessions st) = Some s"
    and fresh: "fresh_id (''model_'' @ now_model) (chatSessions st)"
  defines "st' \<equiv> handleSendMessage apiKey model now_user now_model iso_user iso_model msg search st"
  shows "fetches st' = fetches st @ [sent_contents s msg]
    \<and> saves st' = saves st @ [(uid, no_fields\<lparr> p_chatSessions := Some (chatSessions st) \<rparr>)]
    \<and> isAiReplying st' = False
    \<and> ((case model (sent_contents s msg, search) of
           Inl e \<Rightarrow> True | Inr stream \<Rightarrow> \<not> completes stream)
         \<longrightarrow> chatSessions st' = chatSessions st)"
proof -
  let ?um = "\<lparr> msg_id = ''user_'' @ now_user, role = User, parts = [msg],
                msg_timestamp = iso_user, grounding = None \<rparr>"
  let ?pm = "\<lparr> msg_id = ''model_'' @ now_model, role = Model, parts = [[]],
                msg_timestamp = iso_model, grounding = None \<rparr>"
  let ?upd = "add_turn a msg ?um ?pm (chatSessions st)"
  let ?st2 = "st\<lparr> isAiReplying := True, chatSessions := ?upd \<rparr>"
  from find_add_turn[OF sess, of msg ?um ?pm]
  obtain cur where cur: "find (\<lambda>s. session_id s = a) ?upd = Some cur"
      "history cur = history s @ [?um, ?pm]"
    by blast
  have cont: "map (\<lambda>h. (role h, parts h)) (history cur) @ [(User, [msg])] = sent_contents s msg"
    by (simp add: cur(2) sent_contents_def)
  have uid2: "firebaseUser ?st2 = Some uid"
    by (simp add: uid)
  from try_send_general[OF key uid2 cur(1) fresh, of model msg search] cont
  obtain out st3 where t: "try_send apiKey model a (''model_'' @ now_model) msg search
        (chatSessions st) ?upd ?st2 = (out, st3)"
      "fetches st3 = fetches st @ [sent_contents s msg]"
      "firebaseUser st3 = Some uid"
      "saves st3 = saves st @ (if isl out then []
                                else [(uid, no_fields\<lparr> p_chatSessions := Some (chatSessions st) \<rparr>)])"
      "isl out \<longleftrightarrow> (case model (sent_contents s msg, search) of
                         Inl e \<Rightarrow> True | Inr stream \<Rightarrow> \<not> completes stream)"
    by auto
  show ?thesis
  proof (cases out)
    case (Inl e)
    have step: "st' = (catch_send a (''model_'' @ now_model) (chatSessions st) e st3)
                        \<lparr> isAiReplying := False \<rparr>"
      unfolding st'_def handleSendMessage_def using prof act t(1) by (simp add: Let_def Inl)
    show ?thesis
      unfolding step catch_send_general[OF t(3) fresh] using t(2-5)
      by (simp add: Inl)
  next
    case (Inr u)
    have step: "st' = st3\<lparr> isAiReplying := False \<rparr>"
      unfolding st'_def handleSendMessage_def using prof act t(1) by (simp add: Let_def Inr)
    show ?thesis
      unfolding step using t(2-5) by (simp add: Inr)
  qed
qed
lemmas chat_example_defs = send_hi_def chat_state_def example_state_def chat_session_def
  prior_question_def prior_answer_def new_question_def new_answer_def

lemmas chat_code_defs = handleSendMessage_def add_turn_def try_send_def catch_send_def
  continueChat_def Let_def saveData_def
  set_reply_def set_error_def no_fields_def

text \<open>
  C1 (not met by the code). The claim: when the stream completes, the persisted
  chat-sessions collection is the full updated one, with the new user message and the
  model message holding the concatenated deltas, equal to the in-memory list. Evaluated
  on the example: the in-memory list has both messages, the reply reading \<^verbatim>\<open>Hello\<close>,
  but the one collection handed to the gateway is the list as it was before the send,
  without either message.
\<close>

theorem send_success_persists_stale_sessions:
  "chatSessions (send_hi replying_model)
     = [chat_session\<lparr> history := [prior_question, prior_answer, new_question, new_answer ''Hello''] \<rparr>]
   \<and> saves (send_hi replying_model)
     = [(''uid1'', no_fields\<lparr> p_chatSessions := Some [chat_session] \<rparr>)]
   \<and> isAiReplying (send_hi replying_model) = False"
  by (simp add: chat_example_defs chat_code_defs replying_model_def)

text \<open>
  C2 (not met by the code). The claim: on a failure the placeholder's text becomes an
  error message, in memory and in the persisted collection, and the user message and the
  placeholder stay in the history. Evaluated on the example with a stream that breaks:
  the in-memory list and the persisted one are both the list as it was before the send;
  the user message and the placeholder are gone and no error text is stored. The flag is
  cleared.
\<close>

theorem send_failure_drops_messages:
  "chatSessions (send_hi breaking_model) = [chat_session]
   \<and> saves (send_hi breaking_model) = [(''uid1'', no_fields\<lparr> p_chatSessions := Some [chat_session] \<rparr>)]
   \<and> isAiReplying (send_hi breaking_model) = False"
  by (simp add: chat_example_defs chat_code_defs breaking_model_def)

lemma send_refused_drops_messages:
  "chatSessions (send_hi refusing_model) = [chat_session]
   \<and> saves (send_hi refusing_model) = [(''uid1'', no_fields\<lparr> p_chatSessions := Some [chat_session] \<rparr>)]"
  by (simp add: chat_example_defs chat_code_defs refusing_model_def handleGeminiError_def)

text \<open>
  C3 (not met by the code). The claim: the fetcher receives the prior history plus the
  new user message exactly once, without the empty placeholder. Evaluated on the example:
  the message list sent is the prior history, the user message, the empty placeholder,
  and the user message a second time.
\<close>

theorem fetcher_gets_placeholder_and_duplicate:
  "fetches (send_hi replying_model)
     = [[(User, [''Is rice ok?'']), (Model, [''Yes.'']),
         (User, [''Hi'']), (Model, ['''']), (User, [''Hi''])]]"
  by (simp add: chat_example_defs chat_code_defs replying_model_def)


section \<open>Verification: persistence gateway and identity resolution\<close>

lemma sanitized_no_undefined:
  "\<not> has_undefined (removeUndefinedValues v)"
  "\<not> items_have_undefined (sanitize_items items)"
  "\<not> props_have_undefined (sanitize_props props)"
  by (induction v and items and props rule: removeUndefinedValues_sanitize_items_sanitize_props.induct)
     simp_all

lemma sanitize_clean:
  "\<not> has_undefined v \<Longrightarrow> removeUndefinedValues v = v"
  "\<not> items_have_undefined items \<Longrightarrow> sanitize_items items = items"
  "\<not> props_have_undefined props \<Longrightarrow> sanitize_props props = props"
  by (induction v and items and props rule: removeUndefinedValues_sanitize_items_sanitize_props.induct)
     auto

lemma sanitize_items_map: "sanitize_items items = map removeUndefinedValues items"
  by (induction items) simp_all

lemma sanitize_props_filter:
  "sanitize_props props =
     map (\<lambda>(k, v). (k, removeUndefinedValues v)) (filter (\<lambda>(k, v). v \<noteq> JUndefined) props)"
  by (induction props) auto

lemma map_of_set_field: "map_of (set_field k v doc) = (map_of doc)(k \<mapsto> v)"
  by (induction doc) auto

lemma map_of_merge_fields_other:
  "k \<notin> fst ` set new \<Longrightarrow> map_of (merge_fields doc new) k = map_of doc k"
  by (induction new arbitrary: doc) (auto simp: map_of_set_field)

lemma map_of_merge_fields_distinct:
  "distinct (map fst new) \<Longrightarrow> (k, v) \<in> set new \<Longrightarrow> map_of (merge_fields doc new) k = Some v"
proof (induction new arbitrary: doc)
  case Nil
  then show ?case by simp
next
  case (Cons kv new)
  obtain k' v' where kv: "kv = (k', v')" by (cases kv) auto
  show ?case
  proof (cases "(k, v) \<in> set new")
    case True
    with Cons show ?thesis by (simp add: kv)
  next
    case False
    with Cons.prems kv have eq: "k' = k" "v' = v" by auto
    with Cons.prems kv have "k \<notin> fst ` set new" by auto
    then show ?thesis
      by (simp add: kv eq map_of_merge_fields_other map_of_set_field)
  qed
qed

lemma saveUserData_object:
  assumes "userId \<noteq> []"
  shows "saveUserData (Some store) userId (JObj props)
     = Inr (store(userId \<mapsto> merge_fields (case store userId of None \<Rightarrow> [] | Some doc \<Rightarrow> doc)
                                (sanitize_props props)))"
  using assms sanitized_no_undefined(3)[of props]
  by (simp add: saveUserData_def setDoc_merge_def)

text \<open>
  C9 (as amended). Before every save-merge write the supplied partial snapshot is
  sanitized recursively, and the payload written holds no \<^verbatim>\<open>undefined\<close> anywhere: an
  undefined (or null) value at the top and an undefined array element become an explicit
  null, while an object property whose value is undefined is left out of the payload, not
  written as null. Fields that the payload does not hold, those left out included, keep
  their stored value, and no other user's document changes.
\<close>

theorem saveUserData_sanitizes_and_merges:
  assumes "userId \<noteq> []"
  shows "saveUserData (Some store) userId data = setDoc_merge store userId (removeUndefinedValues data)
    \<and> \<not> has_undefined (removeUndefinedValues data)
    \<and> removeUndefinedValues JUndefined = JNull
    \<and> removeUndefinedValues (JArr items) = JArr (map removeUndefinedValues items)
    \<and> removeUndefinedValues (JObj props) =
         JObj (map (\<lambda>(k, v). (k, removeUndefinedValues v)) (filter (\<lambda>(k, v). v \<noteq> JUndefined) props))
    \<and> (\<exists>store'. saveUserData (Some store) userId (JObj props) = Inr store'
          \<and> (\<forall>k. k \<notin> fst ` set (filter (\<lambda>(k, v). v \<noteq> JUndefined) props)
                 \<longrightarrow> stored_field store' userId k = stored_field store userId k)
          \<and> (\<forall>u. u \<noteq> userId \<longrightarrow> store' u = store u))"
proof -
  have keys: "fst ` set (sanitize_props props) = fst ` set (filter (\<lambda>(k, v). v \<noteq> JUndefined) props)"
    by (force simp: sanitize_props_filter)
  have merge: "\<exists>store'. saveUserData (Some store) userId (JObj props) = Inr store'
          \<and> (\<forall>k. k \<notin> fst ` set (filter (\<lambda>(k, v). v \<noteq> JUndefined) props)
                 \<longrightarrow> stored_field store' userId k = stored_field store userId k)
          \<and> (\<forall>u. u \<noteq> userId \<longrightarrow> store' u = store u)"
    unfolding saveUserData_object[OF assms] keys[symmetric]
    by (auto simp: stored_field_def map_of_merge_fields_other split: option.splits)
  show ?thesis
    using assms merge
    by (simp add: saveUserData_def sanitized_no_undefined sanitize_items_map sanitize_props_filter)
qed

theorem saveUserData_sanitizes_and_merges_witness:
  "''uidA'' \<noteq> []
   \<and> removeUndefinedValues example_partial
        = JObj [(''weightLog'', JArr [JObj [(''weight'', JNum 70)], JNull])]
   \<and> (\<exists>store'. saveUserData (Some example_store) ''uidA'' example_partial = Inr store'
         \<and> stored_field store' ''uidA'' ''workoutPlan''
             = Some (JObj [(''planName'', JStr ''Base'')])
         \<and> stored_field store' ''uidA'' ''weightLog''
             = Some (JArr [JObj [(''weight'', JNum 70)], JNull]))"
proof -
  have u: "''uidA'' \<noteq> []" by simp
  have s: "removeUndefinedValues example_partial
        = JObj [(''weightLog'', JArr [JObj [(''weight'', JNum 70)], JNull])]"
    by (simp add: example_partial_def)
  from saveUserData_sanitizes_and_merges[OF u, of example_store example_partial "[]"
      "[(''workoutPlan'', JUndefined),
        (''weightLog'', JArr [JObj [(''weight'', JNum 70), (''note'', JUndefined)], JUndefined])]"]
  obtain store' where st:
      "saveUserData (Some example_store) ''uidA'' example_partial = Inr store'"
      "\<forall>k. k \<notin> fst ` set (filter (\<lambda>(k, v). v \<noteq> JUndefined)
               [(''workoutPlan'', JUndefined),
                (''weightLog'', JArr [JObj [(''weight'', JNum 70), (''note'', JUndefined)], JUndefined])])
            \<longrightarrow> stored_field store' ''uidA'' k = stored_field example_store ''uidA'' k"
    unfolding example_partial_def by blast
  from st(2) have keep: "stored_field store' ''uidA'' ''workoutPlan''
       = Some (JObj [(''planName'', JStr ''Base'')])"
    by (simp add: stored_field_def example_store_def)
  have new: "stored_field store' ''uidA'' ''weightLog''
             = Some (JArr [JObj [(''weight'', JNum 70)], JNull])"
    using st(1)
    by (auto simp: saveUserData_def setDoc_merge_def example_partial_def example_store_def
        stored_field_def)
  show ?thesis
    using u s st(1) keep new by blast
qed

text \<open>
  C9 as stated fails: the claim has every undefined marker normalized to an explicit
  null, but an undefined-valued property is dropped from the payload.
\<close>

theorem undefined_property_not_nulled:
  "removeUndefinedValues (JObj [(''workoutPlan'', JUndefined), (''weightLog'', JArr [])])
     = JObj [(''weightLog'', JArr [])]
   \<and> removeUndefinedValues (JObj [(''workoutPlan'', JUndefined), (''weightLog'', JArr [])])
     \<noteq> JObj [(''workoutPlan'', JNull), (''weightLog'', JArr [])]"
  by simp

lemma sanitize_props_member:
  "(k, v) \<in> set props \<Longrightarrow> v \<noteq> JUndefined \<Longrightarrow> (k, removeUndefinedValues v) \<in> set (sanitize_props props)"
  by (induction props) auto

lemma sanitize_props_keys: "fst ` set (sanitize_props props) \<subseteq> fst ` set props"
  by (force simp: sanitize_props_filter)

lemma sanitize_props_distinct: "distinct (map fst props) \<Longrightarrow> distinct (map fst (sanitize_props props))"
proof (induction props)
  case Nil
  then show ?case by simp
next
  case (Cons kv props)
  obtain k v where kv: "kv = (k, v)" by (cases kv) auto
  from Cons.prems kv have "k \<notin> fst ` set props" by auto
  with sanitize_props_keys[of props] have "k \<notin> fst ` set (sanitize_props props)" by blast
  with Cons kv show ?case by auto
qed

lemma captured_snapshot:
  "isGuest g \<Longrightarrow> truthy (mem_userProfile g) \<Longrightarrow> guestDataRef (handleSignInAttempt g) = snapshot g"
  by (simp add: handleSignInAttempt_def)

lemma snapshot_props:
  "k \<in> set snapshot_keys \<Longrightarrow>
     \<exists>v. (k, v) \<in> set [(''userProfile'', mem_userProfile g), (''dailyLogs'', mem_dailyLogs g),
                        (''workoutPlan'', mem_workoutPlan g), (''weightLog'', mem_weightLog g),
                        (''chatSessions'', mem_chatSessions g),
                        (''activeChatSessionId'', mem_activeChatSessionId g)]
          \<and> get_prop (snapshot g) k = v"
  by (auto simp: snapshot_keys_def snapshot_def)

lemma merge_fields_append:
  "distinct (map fst new) \<Longrightarrow> fst ` set doc \<inter> fst ` set new = {} \<Longrightarrow> merge_fields doc new = doc @ new"
proof (induction new arbitrary: doc)
  case Nil
  then show ?case by simp
next
  case (Cons kv new)
  obtain k v where kv: "kv = (k, v)" by (cases kv) auto
  from Cons.prems kv have fresh: "k \<notin> fst ` set doc"
    by auto
  then have sf: "set_field k v doc = doc @ [(k, v)]"
    by (induction doc) auto
  from Cons.prems kv have "distinct (map fst new)" "fst ` set (doc @ [(k, v)]) \<inter> fst ` set new = {}"
    by auto
  from Cons.IH[OF this] show ?case
    by (simp add: kv sf)
qed

lemma getUserData_cases:
  "getUserData (Some store) read_failure uid = JNull
   \<or> (\<exists>doc. store uid = Some doc \<and> getUserData (Some store) read_failure uid = JObj doc)"
  by (auto simp: getUserData_def getDoc_def split: option.splits)

text \<open>
  C7 (as amended). If a guest snapshot with a non-null profile was captured at the sign-in
  attempt and, on authentication, the store has no snapshot with a profile for the
  identity, the callback completes, the in-memory snapshot equals the captured one, and
  the captured snapshot is stored under the identity as sanitized for the write: each of
  its six fields is stored with its undefined-valued properties left out, and where there
  was no document before, the stored document is the sanitized snapshot. The stored
  fields, and then the document, equal the captured snapshot when it holds no
  \<^verbatim>\<open>undefined\<close>. Other users' documents are unchanged and the guest reference is
  cleared.
\<close>

theorem guest_migration:
  assumes uid: "uid \<noteq> []"
    and dbs: "db st = Some store"
    and cap: "guestDataRef st = snapshot g"
    and prof: "truthy (mem_userProfile g)"
    and noprof: "\<not> truthy (get_prop (case store uid of Some d \<Rightarrow> JObj d | None \<Rightarrow> JNull)
                                ''userProfile'')"
  shows "\<exists>st' store' doc. onAuthStateChanged read_failure (Some uid) st = (None, st')
      \<and> snapshot st' = snapshot g
      \<and> db st' = Some store' \<and> store' uid = Some doc
      \<and> (\<forall>k\<in>set snapshot_keys. get_prop (snapshot g) k \<noteq> JUndefined
            \<longrightarrow> get_prop (JObj doc) k = removeUndefinedValues (get_prop (snapshot g) k))
      \<and> (store uid = None \<longrightarrow> JObj doc = removeUndefinedValues (snapshot g))
      \<and> (\<not> has_undefined (snapshot g)
            \<longrightarrow> (\<forall>k\<in>set snapshot_keys. get_prop (JObj doc) k = get_prop (snapshot g) k)
               \<and> (store uid = None \<longrightarrow> JObj doc = snapshot g))
      \<and> (\<forall>u. u \<noteq> uid \<longrightarrow> store' u = store u)
      \<and> guestDataRef st' = JNull \<and> signedIn st' = Some uid \<and> \<not> isGuest st'"
proof -
  let ?six = "[(''userProfile'', mem_userProfile g), (''dailyLogs'', mem_dailyLogs g),
               (''workoutPlan'', mem_workoutPlan g), (''weightLog'', mem_weightLog g),
               (''chatSessions'', mem_chatSessions g),
               (''activeChatSessionId'', mem_activeChatSessionId g)]"
  let ?old = "case store uid of None \<Rightarrow> [] | Some d \<Rightarrow> d"
  let ?doc = "merge_fields ?old (sanitize_props ?six)"
  let ?store' = "store(uid \<mapsto> ?doc)"
  let ?st1 = "st\<lparr> isUserDataLoading := True, isGuest := False, signedIn := Some uid \<rparr>"
  let ?st' = "?st1\<lparr> db := Some ?store',
                    mem_userProfile := mem_userProfile g, mem_dailyLogs := mem_dailyLogs g,
                    mem_workoutPlan := mem_workoutPlan g, mem_weightLog := mem_weightLog g,
                    mem_chatSessions := mem_chatSessions g,
                    mem_activeChatSessionId := mem_activeChatSessionId g,
                    guestDataRef := JNull, isUserDataLoading := False, isAuthLoading := False \<rparr>"
  have snap: "snapshot g = JObj ?six"
    by (simp add: snapshot_def)
  have save: "saveUserData (Some store) uid (snapshot g) = Inr ?store'"
    unfolding snap by (rule saveUserData_object[OF uid])
  have noprof': "\<not> truthy (get_prop (getUserData (Some store) read_failure uid) ''userProfile'')"
    using getUserData_cases[of store read_failure uid] noprof by auto
  have run: "onAuthStateChanged read_failure (Some uid) st = (None, ?st')"
    unfolding onAuthStateChanged_def
    using noprof' dbs cap save by (simp add: Let_def snap)
  have dist: "distinct (map fst (sanitize_props ?six))"
    by (rule sanitize_props_distinct) simp
  have field: "get_prop (JObj ?doc) k = removeUndefinedValues (get_prop (snapshot g) k)"
    if k: "k \<in> set snapshot_keys" and def: "get_prop (snapshot g) k \<noteq> JUndefined" for k
  proof -
    from snapshot_props[OF k, of g] obtain v where v: "(k, v) \<in> set ?six" "get_prop (snapshot g) k = v"
      by blast
    with def have "(k, removeUndefinedValues v) \<in> set (sanitize_props ?six)"
      by (intro sanitize_props_member) auto
    from map_of_merge_fields_distinct[OF dist this]
    show ?thesis by (simp add: v(2))
  qed
  have clean: "(\<forall>k\<in>set snapshot_keys. get_prop (JObj ?doc) k = get_prop (snapshot g) k)
               \<and> (store uid = None \<longrightarrow> JObj ?doc = snapshot g)"
    if c: "\<not> has_undefined (snapshot g)"
  proof -
    from c have id: "sanitize_props ?six = ?six"
      unfolding snap by (intro sanitize_clean(3)) simp
    have "get_prop (JObj ?doc) k = get_prop (snapshot g) k" if k: "k \<in> set snapshot_keys" for k
    proof -
      from snapshot_props[OF k, of g] obtain v where v: "(k, v) \<in> set ?six" "get_prop (snapshot g) k = v"
        by blast
      from c v(1) have "\<not> has_undefined v"
        unfolding snap by auto
      then have "v \<noteq> JUndefined" "removeUndefinedValues v = v"
        by (auto simp: sanitize_clean(1))
      with field[OF k] v(2) show ?thesis by simp
    qed
    moreover have "JObj ?doc = snapshot g" if "store uid = None"
      unfolding id snap using that by simp
    ultimately show ?thesis by blast
  qed
  have fresh: "JObj ?doc = removeUndefinedValues (snapshot g)" if "store uid = None"
  proof -
    have "merge_fields [] (sanitize_props ?six) = [] @ sanitize_props ?six"
      by (rule merge_fields_append[OF dist]) simp
    then show ?thesis
      unfolding snap using that by simp
  qed
  have snap': "snapshot ?st' = snapshot g"
    by (simp add: snapshot_def)
  show ?thesis
    apply (rule exI[of _ ?st'], rule exI[of _ ?store'], rule exI[of _ ?doc])
    using run snap' field clean fresh by simp
qed

theorem guest_migration_witness:
  "''uidB'' \<noteq> []
   \<and> guestDataRef (handleSignInAttempt chatting_guest) = snapshot chatting_guest
   \<and> truthy (mem_userProfile chatting_guest)
   \<and> identity_store ''uidB'' = None
   \<and> (\<exists>st' store'. onAuthStateChanged None (Some ''uidB'') (handleSignInAttempt chatting_guest)
                       = (None, st')
         \<and> snapshot st' = snapshot chatting_guest
         \<and> db st' = Some store'
         \<and> map_option JObj (store' ''uidB'') = Some (removeUndefinedValues (snapshot chatting_guest))
         \<and> stored_field store' ''uidB'' ''chatSessions'' = Some sanitized_chatSessions)"
proof -
  let ?st = "handleSignInAttempt chatting_guest"
  have store: "db ?st = Some identity_store" "identity_store ''uidB'' = None"
    by (simp_all add: handleSignInAttempt_def chatting_guest_def guest_state_def identity_store_def)
  have u: "''uidB'' \<noteq> []" by simp
  have prof: "truthy (mem_userProfile chatting_guest)"
    by (simp add: chatting_guest_def guest_state_def)
  have cap: "guestDataRef ?st = snapshot chatting_guest"
    by (rule captured_snapshot) (simp_all add: chatting_guest_def guest_state_def)
  have noprof: "\<not> truthy (get_prop (case identity_store ''uidB'' of Some d \<Rightarrow> JObj d | None \<Rightarrow> JNull)
                                ''userProfile'')"
    by (simp add: store(2))
  from guest_migration[OF u store(1) cap prof noprof, of None]
  obtain st' store' doc where r:
      "onAuthStateChanged None (Some ''uidB'') ?st = (None, st')
      \<and> snapshot st' = snapshot chatting_guest
      \<and> db st' = Some store' \<and> store' ''uidB'' = Some doc
      \<and> (\<forall>k\<in>set snapshot_keys. get_prop (snapshot chatting_guest) k \<noteq> JUndefined
            \<longrightarrow> get_prop (JObj doc) k = removeUndefinedValues (get_prop (snapshot chatting_guest) k))
      \<and> (identity_store ''uidB'' = None \<longrightarrow> JObj doc = removeUndefinedValues (snapshot chatting_guest))
      \<and> (\<not> has_undefined (snapshot chatting_guest)
            \<longrightarrow> (\<forall>k\<in>set snapshot_keys. get_prop (JObj doc) k = get_prop (snapshot chatting_guest) k)
               \<and> (identity_store ''uidB'' = None \<longrightarrow> JObj doc = snapshot chatting_guest))
      \<and> (\<forall>u. u \<noteq> ''uidB'' \<longrightarrow> store' u = identity_store u)
      \<and> guestDataRef st' = JNull \<and> signedIn st' = Some ''uidB'' \<and> \<not> isGuest st'"
    by (elim exE) (rule that)
  note c1 = r[THEN conjunct2]
  note c2 = c1[THEN conjunct2]
  note c3 = c2[THEN conjunct2]
  note c4 = c3[THEN conjunct2]
  note r1 = r[THEN conjunct1] and r2 = c1[THEN conjunct1] and r3 = c2[THEN conjunct1]
    and r4 = c3[THEN conjunct1] and r5 = c4[THEN conjunct1] and r6 = c4[THEN conjunct2, THEN conjunct1]
  from r6 store(2) have doc: "JObj doc = removeUndefinedValues (snapshot chatting_guest)"
    by (rule mp)
  have rem: "map_option JObj (store' ''uidB'') = Some (removeUndefinedValues (snapshot chatting_guest))"
    unfolding r4 using doc by simp
  have key: "''chatSessions'' \<in> set snapshot_keys"
    by (simp add: snapshot_keys_def)
  have cs: "get_prop (snapshot chatting_guest) ''chatSessions'' = mem_chatSessions chatting_guest"
    by (simp add: snapshot_def)
  have def: "get_prop (snapshot chatting_guest) ''chatSessions'' \<noteq> JUndefined"
    unfolding cs by (simp add: chatting_guest_def)
  from r5 key def have "get_prop (JObj doc) ''chatSessions''
      = removeUndefinedValues (get_prop (snapshot chatting_guest) ''chatSessions'')"
    by blast
  moreover have "removeUndefinedValues (mem_chatSessions chatting_guest) = sanitized_chatSessions"
    by (simp add: chatting_guest_def sanitized_chatSessions_def)
  ultimately have g: "get_prop (JObj doc) ''chatSessions'' = sanitized_chatSessions"
    unfolding cs by simp
  have fld: "stored_field store' ''uidB'' ''chatSessions'' = Some sanitized_chatSessions"
  proof (cases "map_of doc ''chatSessions''")
    case None
    with g show ?thesis by (simp add: sanitized_chatSessions_def)
  next
    case (Some v)
    with g show ?thesis by (simp add: stored_field_def r4)
  qed
  show ?thesis
    by (intro conjI exI[of _ st'] exI[of _ store']) (fact u cap prof store(2) r1 r2 r3 rem fld)+
qed

text \<open>
  C7 as stated fails: the claim has the remote document equal to the captured guest
  snapshot, but for the chatting guest the stored chat sessions are the sanitized ones,
  without the \<^verbatim>\<open>grounding\<close> property the captured message has, while the in-memory
  snapshot is the captured one.
\<close>

theorem guest_document_differs:
  "fst (onAuthStateChanged None (Some ''uidB'') (handleSignInAttempt chatting_guest)) = None
   \<and> snapshot after_migration = snapshot chatting_guest
   \<and> stored_field (case db after_migration of Some store \<Rightarrow> store | None \<Rightarrow> Map.empty)
        ''uidB'' ''chatSessions'' = Some sanitized_chatSessions
   \<and> stored_field (case db after_migration of Some store \<Rightarrow> store | None \<Rightarrow> Map.empty)
        ''uidB'' ''chatSessions'' \<noteq> Some (mem_chatSessions chatting_guest)"
proof -
  have s1: "handleSignInAttempt chatting_guest
             = chatting_guest\<lparr> guestDataRef := snapshot chatting_guest \<rparr>"
    by (simp add: handleSignInAttempt_def chatting_guest_def guest_state_def)
  have run: "fst (onAuthStateChanged None (Some ''uidB'') (handleSignInAttempt chatting_guest)) = None
     \<and> snapshot after_migration = snapshot chatting_guest
     \<and> stored_field (case db after_migration of Some store \<Rightarrow> store | None \<Rightarrow> Map.empty)
          ''uidB'' ''chatSessions'' = Some sanitized_chatSessions"
    unfolding after_migration_def s1
    by (simp add: onAuthStateChanged_def chatting_guest_def guest_state_def identity_store_def
        getUserData_def getDoc_def js_or_def Let_def saveUserData_def setDoc_merge_def
        snapshot_def stored_field_def sanitized_chatSessions_def)
  have ne: "sanitized_chatSessions \<noteq> mem_chatSessions chatting_guest"
    by (simp add: sanitized_chatSessions_def chatting_guest_def)
  show ?thesis
    using run ne by simp
qed

text \<open>
  An existing user's login, the read of the store succeeding: the stored fields are
  loaded, a missing one defaulting to empty; nothing is written; the guest reference is
  left as it was.
\<close>

lemma existing_user_login:
  assumes uid: "uid \<noteq> []"
    and dbs: "db st = Some store"
    and doc: "store uid = Some doc"
    and prof: "truthy (get_prop (JObj doc) ''userProfile'')"
  shows "\<exists>st'. onAuthStateChanged None (Some uid) st = (None, st')
      \<and> mem_userProfile st' = get_prop (JObj doc) ''userProfile''
      \<and> mem_dailyLogs st' = js_or (get_prop (JObj doc) ''dailyLogs'') (JArr [])
      \<and> mem_workoutPlan st' = js_or (get_prop (JObj doc) ''workoutPlan'') JNull
      \<and> mem_weightLog st' = js_or (get_prop (JObj doc) ''weightLog'') (JArr [])
      \<and> mem_chatSessions st' = js_or (get_prop (JObj doc) ''chatSessions'') (JArr [])
      \<and> mem_activeChatSessionId st' = js_or (get_prop (JObj doc) ''activeChatSessionId'') JNull
      \<and> db st' = db st
      \<and> guestDataRef st' = guestDataRef st"
proof -
  have ex: "getUserData (db st) None uid = JObj doc"
    using uid dbs doc by (simp add: getUserData_def getDoc_def)
  show ?thesis
    unfolding onAuthStateChanged_def using prof
    by (simp add: Let_def ex js_or_def del: get_prop.simps)
qed

text \<open>
  When the read fails for an existing user who signs in from a guest session, the
  callback takes the migration branch: the captured guest profile is written over the
  stored one.
\<close>

lemma failed_read_overwrites_profile:
  "stored_field identity_store ''uidA'' ''userProfile''
     = Some (JObj [(''name'', JStr ''Ann''), (''weight'', JNum 60)])
   \<and> stored_field
        (case db (snd (onAuthStateChanged (Some (Error ''unavailable'')) (Some ''uidA'')
                        (handleSignInAttempt guest_state))) of
           Some store \<Rightarrow> store | None \<Rightarrow> Map.empty)
        ''uidA'' ''userProfile''
     = Some (JObj [(''name'', JStr ''Gus''), (''weight'', JNum 80)])"
  by (simp add: onAuthStateChanged_def handleSignInAttempt_def guest_state_def identity_store_def
      getUserData_def getDoc_def Let_def saveUserData_def setDoc_merge_def snapshot_def
      stored_field_def)

text \<open>
  C8 (not met by the code). The claim: when the remote snapshot has a profile it is loaded
  verbatim, no migration save occurs, and any snapshot captured from a prior guest
  session is discarded. Evaluated on the example: the login as \<^verbatim>\<open>uidA\<close> loads the stored
  profile and writes nothing, but the guest reference still holds the captured guest
  snapshot afterwards; when the next authentication event is for \<^verbatim>\<open>uidB\<close>, who has no
  stored profile, that snapshot is loaded into memory and stored under \<^verbatim>\<open>uidB\<close>.
\<close>

theorem existing_login_keeps_guest_snapshot:
  "handleSignInAttempt guest_state = guest_state\<lparr> guestDataRef := JObj guest_fields \<rparr>
   \<and> mem_userProfile after_existing_login = JObj [(''name'', JStr ''Ann''), (''weight'', JNum 60)]
   \<and> db after_existing_login = db guest_state
   \<and> guestDataRef after_existing_login = JObj guest_fields
   \<and> snapshot after_next_login = JObj guest_fields
   \<and> stored_field (case db after_next_login of Some store \<Rightarrow> store | None \<Rightarrow> Map.empty)
        ''uidB'' ''userProfile'' = Some (JObj [(''name'', JStr ''Gus''), (''weight'', JNum 80)])"
proof -
  have s1: "handleSignInAttempt guest_state = guest_state\<lparr> guestDataRef := JObj guest_fields \<rparr>"
    by (simp add: handleSignInAttempt_def guest_state_def snapshot_def guest_fields_def)
  have s2: "after_existing_login = guest_state\<lparr> guestDataRef := JObj guest_fields,
        isGuest := False, signedIn := Some ''uidA'',
        mem_userProfile := JObj [(''name'', JStr ''Ann''), (''weight'', JNum 60)],
        mem_dailyLogs := JArr [], mem_workoutPlan := JNull,
        mem_weightLog := JArr [JObj [(''date'', JStr ''2024-04-01T00:00:00.000Z''),
                                     (''weight'', JNum 60)]],
        mem_chatSessions := JArr [], mem_activeChatSessionId := JNull \<rparr>"
    unfolding after_existing_login_def s1
    by (simp add: onAuthStateChanged_def guest_state_def identity_store_def getUserData_def getDoc_def
        js_or_def Let_def)
  have s3: "snapshot after_next_login = JObj guest_fields
      \<and> stored_field (case db after_next_login of Some store \<Rightarrow> store | None \<Rightarrow> Map.empty)
        ''uidB'' ''userProfile'' = Some (JObj [(''name'', JStr ''Gus''), (''weight'', JNum 80)])"
    unfolding after_next_login_def s2
    by (simp add: onAuthStateChanged_def guest_state_def identity_store_def getUserData_def getDoc_def
        js_or_def Let_def saveUserData_def setDoc_merge_def guest_fields_def snapshot_def stored_field_def)
  show ?thesis
    using s1 s3 unfolding s2 by (simp add: guest_state_def)
qed

end
